theory Spec2Isabelle
  imports Complex_Main "HOL-Library.Log_Nat"
begin

section \<open>The store behind server.js\<close>

text \<open>
  server.js keeps all its state in MySQL tables and reaches them through one global
  connection. A table is a list of rows, a row is a record of its columns, and NULL is
  \<open>None\<close>. Dates are day numbers; the timestamps \<open>joined_at\<close> and \<open>created_at\<close>, which
  no modelled handler reads, are left out. Text columns are compared by plain equality.
\<close>

type_synonym date = int

record user_history =
  uh_id :: nat
  uh_user_id :: nat
  uh_organization :: string
  uh_project_name :: string
  uh_project_description :: string
  uh_stage :: string
  uh_project_id :: "nat option"
  uh_status :: string
  uh_carbon_emit :: real
  uh_session_duration :: real
  uh_stage_duration :: "int option"
  uh_stage_start_date :: "date option"
  uh_stage_due_date :: "date option"
  uh_project_start_date :: "date option"
  uh_project_due_date :: "date option"

record project_members =
  pm_project_id :: nat
  pm_user_id :: nat
  pm_role :: string
  pm_current_stage :: "string option"
  pm_progress_status :: "string option"

record project_stage_progress =
  psp_project_id :: nat
  psp_user_id :: nat
  psp_stage :: string
  psp_status :: string
  psp_start_date :: date
  psp_completion_date :: date

record notifications =
  n_id :: nat
  n_sender_id :: nat
  n_recipient_id :: nat
  n_project_id :: nat
  n_type :: string
  n_message :: string
  n_status :: string
  n_response :: "string option"

record project_requests =
  pr_id :: nat
  pr_user_id :: nat
  pr_title :: string
  pr_description :: string
  pr_project_stage :: string
  pr_organization :: string
  pr_stage_duration :: "int option"
  pr_stage_start_date :: "date option"
  pr_stage_due_date :: "date option"
  pr_project_start_date :: "date option"
  pr_project_due_date :: "date option"
  pr_status :: string
  pr_reviewer_id :: "nat option"
  pr_review_notes :: "string option"

record users =
  u_id :: nat
  u_current_device_id :: "nat option"
  u_region :: "string option"

record user_devices =
  ud_id :: nat
  ud_cpu :: string
  ud_gpu :: string
  ud_ram :: string
  ud_psu :: real

text \<open>
  The wattage tables (cpus, gpus, rams and the mobile cpusm, gpusm) map a model name to
  its average watts. \<open>next_history_id\<close> is the AUTO_INCREMENT counter of user_history,
  the only generated key the handlers read back (\<open>insertId\<close>).
\<close>

record db =
  t_user_history :: "user_history list"
  t_project_members :: "project_members list"
  t_project_stage_progress :: "project_stage_progress list"
  t_notifications :: "notifications list"
  t_project_requests :: "project_requests list"
  t_users :: "users list"
  t_user_devices :: "user_devices list"
  t_cpus :: "(string \<times> real) list"
  t_gpus :: "(string \<times> real) list"
  t_rams :: "(string \<times> real) list"
  t_cpusm :: "(string \<times> real) list"
  t_gpusm :: "(string \<times> real) list"
  next_history_id :: nat

text \<open>
  The global \<open>connection\<close>: \<open>tables\<close> is what a query on it sees and changes,
  \<open>snapshot\<close> is the committed state while a transaction is open on it (\<open>None\<close> when the
  connection is in autocommit mode, as a fresh connection is).
\<close>

record conn =
  tables :: db
  snapshot :: "db option"

text \<open>
  What the server answers to one attempt of a statement: it runs, it fails with an
  ordinary error, or the connection drops (PROTOCOL_CONNECTION_LOST, ECONNRESET,
  ETIMEDOUT). A handler runs against the list of the answers to come; once the list is
  used up every attempt runs.
\<close>

datatype outcome = Succeeds | Fails | ConnLost

datatype db_error = DbError

text \<open>
  \<open>createConnection\<close> replaces the global connection by a new one. The server drops the
  transaction of the lost connection, and the new connection has none open.
\<close>

definition createConnection :: "conn \<Rightarrow> conn" where
  "createConnection c =
     \<lparr>tables = (case snapshot c of Some s \<Rightarrow> s | None \<Rightarrow> tables c), snapshot = None\<rparr>"

text \<open>
  \<open>queryDatabase\<close> (lines 71-96): run the statement on the current connection; when the
  connection is lost, reconnect and run it again; any other error goes to the callback.
\<close>

fun queryDatabase ::
  "(db \<Rightarrow> 'r \<times> db) \<Rightarrow> outcome list \<Rightarrow> conn \<Rightarrow> (db_error + 'r) \<times> outcome list \<times> conn" where
  "queryDatabase q [] c =
     (case q (tables c) of (r, d) \<Rightarrow> (Inr r, [], c\<lparr>tables := d\<rparr>))"
| "queryDatabase q (Succeeds # os) c =
     (case q (tables c) of (r, d) \<Rightarrow> (Inr r, os, c\<lparr>tables := d\<rparr>))"
| "queryDatabase q (Fails # os) c = (Inl DbError, os, c)"
| "queryDatabase q (ConnLost # os) c = queryDatabase q os (createConnection c)"

definition select :: "(db \<Rightarrow> 'r) \<Rightarrow> db \<Rightarrow> 'r \<times> db" where
  "select f d = (f d, d)"

definition execute :: "(db \<Rightarrow> db) \<Rightarrow> db \<Rightarrow> unit \<times> db" where
  "execute g d = ((), g d)"

section \<open>checkAndUpdateProjectCompletion (lines 125-173)\<close>

definition getMembersQuery :: "nat \<Rightarrow> db \<Rightarrow> project_members list" where
  "getMembersQuery projectId d =
     filter (\<lambda>m. pm_project_id m = projectId \<and> pm_role m \<noteq> ''project_owner'')
       (t_project_members d)"

definition updateProjectQuery :: "nat \<Rightarrow> db \<Rightarrow> db" where
  "updateProjectQuery projectId d =
     d\<lparr>t_user_history :=
         map (\<lambda>h. if uh_id h = projectId then h\<lparr>uh_status := ''Complete''\<rparr> else h)
           (t_user_history d)\<rparr>"

text \<open>
  The callback receives \<open>(err, allCompleted)\<close>; the model returns that pair, the answers
  left and the connection.
\<close>

definition checkAndUpdateProjectCompletion ::
  "nat \<Rightarrow> outcome list \<Rightarrow> conn \<Rightarrow> (db_error option \<times> bool) \<times> outcome list \<times> conn" where
  "checkAndUpdateProjectCompletion projectId os c =
     (case queryDatabase (select (getMembersQuery projectId)) os c of
        (Inl err, os1, c1) \<Rightarrow> ((Some err, False), os1, c1)
      | (Inr members, os1, c1) \<Rightarrow>
          if length members = 0 then ((None, False), os1, c1)
          else
            let allCompleted =
                  list_all (\<lambda>member. pm_progress_status member = Some ''Stage Complete'') members
            in if allCompleted then
                 (case queryDatabase (execute (updateProjectQuery projectId)) os1 c1 of
                    (Inl err, os2, c2) \<Rightarrow> ((Some err, False), os2, c2)
                  | (Inr _, os2, c2) \<Rightarrow> ((None, True), os2, c2))
               else ((None, False), os1, c1))"

section \<open>Replies and transactions\<close>

text \<open>
  A handler answers with a JSON body (\<open>Ok\<close>), with an error status and its error text
  (\<open>Err\<close>), or not at all because an exception escaped a callback (\<open>Uncaught\<close>).
\<close>

datatype 'a reply = Ok 'a | Err nat string | Uncaught string

text \<open>
  \<open>connection.beginTransaction\<close>, \<open>connection.commit\<close> and \<open>connection.rollback\<close> are
  called on the global connection directly, without the retry of \<open>queryDatabase\<close>.
  Starting a transaction commits one that is still open. A lost connection takes its
  transaction with it. The handlers ignore the result of \<open>rollback\<close>.
\<close>

fun beginTransaction :: "outcome list \<Rightarrow> conn \<Rightarrow> db_error option \<times> outcome list \<times> conn" where
  "beginTransaction [] c = (None, [], c\<lparr>snapshot := Some (tables c)\<rparr>)"
| "beginTransaction (Succeeds # os) c = (None, os, c\<lparr>snapshot := Some (tables c)\<rparr>)"
| "beginTransaction (Fails # os) c = (Some DbError, os, c)"
| "beginTransaction (ConnLost # os) c = (Some DbError, os, createConnection c)"

fun commit :: "outcome list \<Rightarrow> conn \<Rightarrow> db_error option \<times> outcome list \<times> conn" where
  "commit [] c = (None, [], c\<lparr>snapshot := None\<rparr>)"
| "commit (Succeeds # os) c = (None, os, c\<lparr>snapshot := None\<rparr>)"
| "commit (Fails # os) c = (Some DbError, os, c)"
| "commit (ConnLost # os) c = (Some DbError, os, createConnection c)"

definition rollback :: "conn \<Rightarrow> conn" where
  "rollback c =
     \<lparr>tables = (case snapshot c of Some s \<Rightarrow> s | None \<Rightarrow> tables c), snapshot = None\<rparr>"

section \<open>JavaScript numbers\<close>

text \<open>
  The emission handlers compute with JavaScript numbers, which are IEEE 754 doubles: a
  finite value, an infinity or NaN. An operation yields the double nearest to the exact
  result, a tie going to the even significand, and an infinity when that is 2^1024 or more
  in size. The two zeros are taken as one: the handlers divide by 3600 only, and a
  negative zero is sent and stored as 0.
\<close>

datatype number = Num real | PosInfinity | NegInfinity | NaN

definition round_half_even :: "real \<Rightarrow> int" where
  "round_half_even x =
     (let f = \<lfloor>x\<rfloor>; d = x - of_int f
      in if d < 1 / 2 then f else if 1 / 2 < d then f + 1 else if even f then f else f + 1)"

text \<open>For \<open>0 < x\<close>, the \<open>e\<close> with \<open>2 ^ e \<le> x < 2 ^ (e + 1)\<close>.\<close>

definition exponent :: "real \<Rightarrow> int" where
  "exponent x = (if 1 \<le> x then bitlen \<lfloor>x\<rfloor> - 1 else - bitlen (\<lceil>1 / x\<rceil> - 1))"

definition scale2 :: "real \<Rightarrow> int \<Rightarrow> real" where
  "scale2 x e = (if 0 \<le> e then x * 2 ^ nat e else x / 2 ^ nat (- e))"

text \<open>
  The double nearest to \<open>0 < x\<close>: 53 significant bits, the last of them worth at least
  2^-1074; an infinity when that is 2^1024 or more.
\<close>

definition round_positive :: "real \<Rightarrow> number" where
  "round_positive x =
     (let q = max (exponent x - 52) (- 1074);
          r = scale2 (of_int (round_half_even (scale2 x (- q)))) q
      in if 1024 \<le> exponent r then PosInfinity else Num r)"

definition js_negate :: "number \<Rightarrow> number" where
  "js_negate x =
     (case x of Num a \<Rightarrow> Num (- a) | PosInfinity \<Rightarrow> NegInfinity
      | NegInfinity \<Rightarrow> PosInfinity | NaN \<Rightarrow> NaN)"

text \<open>
  The number that a numeric literal of the program, or a number read from the store,
  denotes.
\<close>

definition to_double :: "real \<Rightarrow> number" where
  "to_double x =
     (if x = 0 then Num 0 else if 0 < x then round_positive x
      else js_negate (round_positive (- x)))"

definition js_sign :: "number \<Rightarrow> int" where
  "js_sign x =
     (case x of Num a \<Rightarrow> (if a < 0 then - 1 else 1) | PosInfinity \<Rightarrow> 1
      | NegInfinity \<Rightarrow> - 1 | NaN \<Rightarrow> 0)"

definition js_infinity :: "int \<Rightarrow> number" where
  "js_infinity s = (if 0 < s then PosInfinity else NegInfinity)"

text \<open>\<open>a + b\<close>, \<open>a * b\<close> and \<open>a / b\<close> on numbers.\<close>

definition js_add :: "number \<Rightarrow> number \<Rightarrow> number" where
  "js_add x y =
     (case (x, y) of
        (Num a, Num b) \<Rightarrow> to_double (a + b)
      | (NaN, _) \<Rightarrow> NaN
      | (_, NaN) \<Rightarrow> NaN
      | (PosInfinity, NegInfinity) \<Rightarrow> NaN
      | (NegInfinity, PosInfinity) \<Rightarrow> NaN
      | (Num _, _) \<Rightarrow> y
      | (_, _) \<Rightarrow> x)"

definition js_mul :: "number \<Rightarrow> number \<Rightarrow> number" where
  "js_mul x y =
     (case (x, y) of
        (Num a, Num b) \<Rightarrow> to_double (a * b)
      | (NaN, _) \<Rightarrow> NaN
      | (_, NaN) \<Rightarrow> NaN
      | (_, _) \<Rightarrow>
          if x = Num 0 \<or> y = Num 0 then NaN else js_infinity (js_sign x * js_sign y))"

definition js_div :: "number \<Rightarrow> number \<Rightarrow> number" where
  "js_div x y =
     (case (x, y) of
        (NaN, _) \<Rightarrow> NaN
      | (_, NaN) \<Rightarrow> NaN
      | (Num a, Num b) \<Rightarrow>
          if b \<noteq> 0 then to_double (a / b)
          else if a = 0 then NaN else js_infinity (js_sign x)
      | (Num _, _) \<Rightarrow> Num 0
      | (_, Num _) \<Rightarrow> js_infinity (js_sign x * js_sign y)
      | (_, _) \<Rightarrow> NaN)"

section \<open>Emission accrual (lines 175-183, 913-1118)\<close>

text \<open>
  \<open>carbonFactors[region] || 0.412\<close> reads a property of an object literal, so a region
  that names a property inherited from \<open>Object.prototype\<close> yields that function or object
  instead of a number (\<open>None\<close> here); a NULL region reads the missing key \<open>null\<close>.
\<close>

definition objectPrototypeKeys :: "string list" where
  "objectPrototypeKeys =
     [''constructor'', ''__defineGetter__'', ''__defineSetter__'', ''hasOwnProperty'',
      ''__lookupGetter__'', ''__lookupSetter__'', ''isPrototypeOf'', ''propertyIsEnumerable'',
      ''toString'', ''valueOf'', ''__proto__'', ''toLocaleString'']"

definition getCarbonFactor :: "string option \<Rightarrow> real option" where
  "getCarbonFactor region =
     (case region of
        None \<Rightarrow> Some 0.412
      | Some r \<Rightarrow>
          if r = ''Singapore'' then Some 0.412
          else if r = ''Philippines'' then Some 0.5246
          else if r \<in> set objectPrototypeKeys then None
          else Some 0.412)"

definition deviceIdQuery :: "nat \<Rightarrow> db \<Rightarrow> users list" where
  "deviceIdQuery userId d = filter (\<lambda>u. u_id u = userId) (t_users d)"

definition userQuery :: "nat \<Rightarrow> db \<Rightarrow> user_devices list" where
  "userQuery currentDeviceId d = filter (\<lambda>dv. ud_id dv = currentDeviceId) (t_user_devices d)"

text \<open>
  The endpoints /cpu_usage, /gpu_usage, /ram_usage, /cpum_usage and /gpum_usage (lines
  998-1034, 1121-1176) answer 200 with the \<open>avg_watt_usage\<close> of the first row whose model
  is \<open>req.query.model\<close>, 404 when there is none and 500 when their query fails. The
  handlers call them with \<open>fetch\<close> on a URL that ends in \<open>?model=\<close> and the model name as
  the device row has it, not encoded (lines 949-951, 1071-1073). What \<open>req.query.model\<close>
  is for such a name is decided by the URL parser of \<open>fetch\<close> and the query parser of
  Express, which are not part of the repository: it is the parameter \<open>req_query_model\<close>
  of the model, \<open>None\<close> where the endpoint gets no text to look up. A name of letters and
  digits arrives as it is; a name with \<open>+\<close>, \<open>&\<close>, \<open>#\<close> or \<open>%\<close> does not.
  The watts are taken to be stored as numbers.
\<close>

definition usage_endpoint ::
  "(string \<Rightarrow> string option) \<Rightarrow> (string \<times> real) list \<Rightarrow> string \<Rightarrow> number option" where
  "usage_endpoint req_query_model t name =
     (case req_query_model name of
        None \<Rightarrow> None
      | Some model \<Rightarrow> map_option to_double (map_of t model))"

text \<open>
  \<open>fetch\<close> reaches the deployed server, which runs its own connection; the response is
  \<open>Some\<close> watts exactly for a 200.
\<close>

fun fetch_usage ::
  "(string \<Rightarrow> string option) \<Rightarrow> (string \<times> real) list \<Rightarrow> string \<Rightarrow> outcome list \<Rightarrow>
   number option \<times> outcome list" where
  "fetch_usage req_query_model t name [] = (usage_endpoint req_query_model t name, [])"
| "fetch_usage req_query_model t name (Succeeds # os) =
     (usage_endpoint req_query_model t name, os)"
| "fetch_usage req_query_model t name (Fails # os) = (None, os)"
| "fetch_usage req_query_model t name (ConnLost # os) = fetch_usage req_query_model t name os"

definition is_project_member :: "nat \<Rightarrow> nat \<Rightarrow> db \<Rightarrow> bool" where
  "is_project_member projectId userId d =
     list_ex (\<lambda>m. pm_user_id m = userId \<and> pm_project_id m = projectId) (t_project_members d)"

text \<open>
  \<open>UPDATE user_history SET carbon_emit = carbon_emit + ? WHERE id = ? AND (user_id = ? OR
  id IN (SELECT project_id FROM project_members WHERE user_id = ?))\<close>.
  Modelled from the spec: the declaration of the columns carbon_emit and session_duration
  is not in the repository; section 4.4 has the delta added to the running total, which
  is exact addition here.
\<close>

definition updateProjectQuery_emissions :: "real \<Rightarrow> nat \<Rightarrow> nat \<Rightarrow> db \<Rightarrow> db" where
  "updateProjectQuery_emissions carbonEmissions projectId userId d =
     d\<lparr>t_user_history :=
         map (\<lambda>h. if uh_id h = projectId \<and>
                     (uh_user_id h = userId \<or> is_project_member (uh_id h) userId d)
                  then h\<lparr>uh_carbon_emit := uh_carbon_emit h + carbonEmissions\<rparr> else h)
           (t_user_history d)\<rparr>"

text \<open>
  \<open>UPDATE user_history SET session_duration = session_duration + ?, carbon_emit =
  carbon_emit + ? WHERE id = ? AND user_id = ?\<close>
\<close>

definition updateQuery_emissionsM :: "real \<Rightarrow> real \<Rightarrow> nat \<Rightarrow> nat \<Rightarrow> db \<Rightarrow> db" where
  "updateQuery_emissionsM sessionDuration carbonEmissions projectId userId d =
     d\<lparr>t_user_history :=
         map (\<lambda>h. if uh_id h = projectId \<and> uh_user_id h = userId
                  then h\<lparr>uh_session_duration := uh_session_duration h + sessionDuration,
                         uh_carbon_emit := uh_carbon_emit h + carbonEmissions\<rparr> else h)
           (t_user_history d)\<rparr>"

text \<open>
  POST /calculate_emissions, for a desktop. \<open>sessionDuration\<close> is the number written in
  the request body, which the handler has as a double; the PSU watts of the device row
  are taken to be stored as a number. A carbon factor that is not a number makes the
  product NaN; the server rejects an UPDATE whose parameter is NaN or an infinity.
\<close>

definition calculate_emissions ::
  "(string \<Rightarrow> string option) \<Rightarrow> real \<Rightarrow> nat \<Rightarrow> nat \<Rightarrow> outcome list \<Rightarrow> conn \<Rightarrow>
   real reply \<times> outcome list \<times> conn" where
  "calculate_emissions req_query_model sessionDuration projectId userId os c =
     (case queryDatabase (select (deviceIdQuery userId)) os c of
        (Inl _, os1, c1) \<Rightarrow> (Err 500 ''Database error'', os1, c1)
      | (Inr [], os1, c1) \<Rightarrow> (Err 404 ''Current device not set'', os1, c1)
      | (Inr (u # _), os1, c1) \<Rightarrow>
          (case u_current_device_id u of
             None \<Rightarrow> (Err 404 ''Current device not set'', os1, c1)
           | Some currentDeviceId \<Rightarrow>
               if currentDeviceId = 0 then (Err 404 ''Current device not set'', os1, c1)
               else
                 (case queryDatabase (select (userQuery currentDeviceId)) os1 c1 of
                    (Inl _, os2, c2) \<Rightarrow> (Err 500 ''Database error'', os2, c2)
                  | (Inr [], os2, c2) \<Rightarrow>
                      (Err 404 ''User device information not found'', os2, c2)
                  | (Inr (dv # _), os2, c2) \<Rightarrow>
                      (case fetch_usage req_query_model (t_cpus (tables c2)) (ud_cpu dv) os2 of
                         (cpuResponse, os3) \<Rightarrow>
                      (case fetch_usage req_query_model (t_gpus (tables c2)) (ud_gpu dv) os3 of
                         (gpuResponse, os4) \<Rightarrow>
                      (case fetch_usage req_query_model (t_rams (tables c2)) (ud_ram dv) os4 of
                         (ramResponse, os5) \<Rightarrow>
                      (case (cpuResponse, gpuResponse, ramResponse) of
                         (Some cpuWattUsage, Some gpuWattUsage, Some ramWattUsage) \<Rightarrow>
                           let psuWattUsage = to_double (ud_psu dv);
                               totalWattUsage =
                                 js_add (js_add (js_add cpuWattUsage gpuWattUsage) ramWattUsage)
                                   psuWattUsage;
                               sessionDurationSeconds = to_double sessionDuration;
                               totalEnergyUsed =
                                 js_mul (js_div totalWattUsage (Num 3600)) sessionDurationSeconds;
                               carbonFactor =
                                 (case getCarbonFactor (u_region u) of
                                    None \<Rightarrow> NaN | Some f \<Rightarrow> to_double f);
                               carbonEmissions = js_mul totalEnergyUsed carbonFactor
                           in (case carbonEmissions of
                                 Num emissions \<Rightarrow>
                                   (case queryDatabase
                                           (execute (updateProjectQuery_emissions
                                              emissions projectId userId)) os5 c2 of
                                      (Inl _, os6, c6) \<Rightarrow>
                                        (Err 500 ''Database error'', os6, c6)
                                    | (Inr _, os6, c6) \<Rightarrow> (Ok emissions, os6, c6))
                               | _ \<Rightarrow> (Err 500 ''Database error'', os5, c2))
                       | _ \<Rightarrow> (Err 500 ''Error fetching wattage data'', os5, c2))))))))"

text \<open>
  POST /calculate_emissionsM, for a mobile device or laptop: the sum has no PSU, and the
  product with the duration is divided by 3600 (lines 1085-1090). The duration is the
  first parameter of the UPDATE.
\<close>

definition calculate_emissionsM ::
  "(string \<Rightarrow> string option) \<Rightarrow> real \<Rightarrow> nat \<Rightarrow> nat \<Rightarrow> outcome list \<Rightarrow> conn \<Rightarrow>
   real reply \<times> outcome list \<times> conn" where
  "calculate_emissionsM req_query_model sessionDuration projectId userId os c =
     (case queryDatabase (select (deviceIdQuery userId)) os c of
        (Inl _, os1, c1) \<Rightarrow> (Err 500 ''Database error'', os1, c1)
      | (Inr [], os1, c1) \<Rightarrow> (Err 404 ''Current device not set'', os1, c1)
      | (Inr (u # _), os1, c1) \<Rightarrow>
          (case u_current_device_id u of
             None \<Rightarrow> (Err 404 ''Current device not set'', os1, c1)
           | Some currentDeviceId \<Rightarrow>
               if currentDeviceId = 0 then (Err 404 ''Current device not set'', os1, c1)
               else
                 (case queryDatabase (select (userQuery currentDeviceId)) os1 c1 of
                    (Inl _, os2, c2) \<Rightarrow> (Err 500 ''Database error'', os2, c2)
                  | (Inr [], os2, c2) \<Rightarrow>
                      (Err 404 ''User device information not found'', os2, c2)
                  | (Inr (dv # _), os2, c2) \<Rightarrow>
                      (case fetch_usage req_query_model (t_cpusm (tables c2)) (ud_cpu dv) os2 of
                         (cpuResponse, os3) \<Rightarrow>
                      (case fetch_usage req_query_model (t_gpusm (tables c2)) (ud_gpu dv) os3 of
                         (gpuResponse, os4) \<Rightarrow>
                      (case fetch_usage req_query_model (t_rams (tables c2)) (ud_ram dv) os4 of
                         (ramResponse, os5) \<Rightarrow>
                      (case (cpuResponse, gpuResponse, ramResponse) of
                         (Some cpuWattage, Some gpuWattage, Some ramWattage) \<Rightarrow>
                           let totalWattage = js_add (js_add cpuWattage gpuWattage) ramWattage;
                               carbonFactor =
                                 (case getCarbonFactor (u_region u) of
                                    None \<Rightarrow> NaN | Some f \<Rightarrow> to_double f);
                               carbonEmissions =
                                 js_mul (js_div (js_mul totalWattage (to_double sessionDuration))
                                           (Num 3600))
                                   carbonFactor
                           in (case (to_double sessionDuration, carbonEmissions) of
                                 (Num duration, Num emissions) \<Rightarrow>
                                   (case queryDatabase
                                           (execute (updateQuery_emissionsM duration
                                              emissions projectId userId)) os5 c2 of
                                      (Inl _, os6, c6) \<Rightarrow>
                                        (Err 500 ''Database error'', os6, c6)
                                    | (Inr _, os6, c6) \<Rightarrow> (Ok emissions, os6, c6))
                               | _ \<Rightarrow> (Err 500 ''Database error'', os5, c2))
                       | _ \<Rightarrow>
                           (Err 500 ''Error fetching wattage data from server'', os5, c2))))))))"

section \<open>Completing a stage: POST /complete_project/:id (lines 1456-1869)\<close>

text \<open>JavaScript's \<open>a || b\<close>: \<open>b\<close> when \<open>a\<close> is null, undefined, 0 or the empty string.\<close>

definition js_or_nat :: "nat option \<Rightarrow> nat \<Rightarrow> nat" where
  "js_or_nat a b = (case a of None \<Rightarrow> b | Some x \<Rightarrow> if x = 0 then b else x)"

definition js_or_int :: "int option \<Rightarrow> int \<Rightarrow> int" where
  "js_or_int a b = (case a of None \<Rightarrow> b | Some x \<Rightarrow> if x = 0 then b else x)"

definition js_or_str :: "string option \<Rightarrow> string \<Rightarrow> string" where
  "js_or_str a b = (case a of None \<Rightarrow> b | Some x \<Rightarrow> if x = [] then b else x)"

definition js_or_null :: "string option \<Rightarrow> string option" where
  "js_or_null a = (case a of None \<Rightarrow> None | Some x \<Rightarrow> if x = [] then None else Some x)"

record complete_result =
  cr_status :: string
  cr_newStageId :: "nat option"
  cr_stage :: string
  cr_completedMembers :: "nat option"
  cr_totalMembers :: "nat option"

text \<open>
  \<open>SELECT ... FROM user_history uh JOIN users u ON uh.user_id = u.id WHERE uh.id = ? LIMIT 1\<close>
\<close>

definition getCurrentProjectQuery :: "nat \<Rightarrow> db \<Rightarrow> user_history list" where
  "getCurrentProjectQuery projectId d =
     take 1 (filter (\<lambda>uh. uh_id uh = projectId \<and>
                           list_ex (\<lambda>u. u_id u = uh_user_id uh) (t_users d))
               (t_user_history d))"

text \<open>
  \<open>INSERT INTO project_stage_progress ... VALUES (?, ?, ?, 'Complete', NOW(), NOW())
  ON DUPLICATE KEY UPDATE status = 'Complete', completion_date = NOW()\<close>.
  Modelled from the spec: the table declaration with its unique key is not in the
  repository; section 3 keys the audit row by (project, user, stage).
\<close>

definition completeCurrentStageQuery :: "nat \<Rightarrow> nat \<Rightarrow> string \<Rightarrow> date \<Rightarrow> db \<Rightarrow> db" where
  "completeCurrentStageQuery projectId userId stage now d =
     (let dup = (\<lambda>r. psp_project_id r = projectId \<and> psp_user_id r = userId \<and>
                       psp_stage r = stage)
      in if list_ex dup (t_project_stage_progress d)
         then d\<lparr>t_project_stage_progress :=
                  map (\<lambda>r. if dup r
                           then r\<lparr>psp_status := ''Complete'', psp_completion_date := now\<rparr>
                           else r)
                    (t_project_stage_progress d)\<rparr>
         else d\<lparr>t_project_stage_progress :=
                  t_project_stage_progress d @
                  [\<lparr>psp_project_id = projectId, psp_user_id = userId, psp_stage = stage,
                    psp_status = ''Complete'', psp_start_date = now,
                    psp_completion_date = now\<rparr>]\<rparr>)"

text \<open>
  \<open>UPDATE project_members SET progress_status = 'Stage Complete'
  WHERE project_id = ? AND user_id = ? AND role != 'project_owner'\<close>
\<close>

definition updateUserProgressQuery :: "nat \<Rightarrow> nat \<Rightarrow> db \<Rightarrow> db" where
  "updateUserProgressQuery projectId userId d =
     d\<lparr>t_project_members :=
         map (\<lambda>m. if pm_project_id m = projectId \<and> pm_user_id m = userId \<and>
                     pm_role m \<noteq> ''project_owner''
                  then m\<lparr>pm_progress_status := Some ''Stage Complete''\<rparr> else m)
           (t_project_members d)\<rparr>"

text \<open>
  \<open>SELECT id FROM user_history WHERE project_name = ? AND project_description = ? AND
  stage = ? AND (project_id = ? OR project_id IS NULL) LIMIT 1\<close>
\<close>

definition checkExistingQuery :: "string \<Rightarrow> string \<Rightarrow> string \<Rightarrow> nat \<Rightarrow> db \<Rightarrow> user_history list" where
  "checkExistingQuery project_name project_description stage project_id d =
     take 1 (filter (\<lambda>uh. uh_project_name uh = project_name \<and>
                           uh_project_description uh = project_description \<and>
                           uh_stage uh = stage \<and>
                           (uh_project_id uh = Some project_id \<or> uh_project_id uh = None))
               (t_user_history d))"

definition checkMembershipQuery :: "nat \<Rightarrow> nat \<Rightarrow> db \<Rightarrow> project_members list" where
  "checkMembershipQuery existingProjectId userId d =
     filter (\<lambda>m. pm_project_id m = existingProjectId \<and> pm_user_id m = userId)
       (t_project_members d)"

text \<open>
  \<open>INSERT INTO project_members (...) SELECT ?, user_id, role, ?, 'In Progress', NOW()
  FROM project_members WHERE project_id = ? AND user_id = ?\<close>
\<close>

definition addToNextStageQuery :: "nat \<Rightarrow> string \<Rightarrow> nat \<Rightarrow> nat \<Rightarrow> db \<Rightarrow> db" where
  "addToNextStageQuery existingProjectId nextProjectStage projectId userId d =
     d\<lparr>t_project_members :=
         t_project_members d @
         map (\<lambda>m. \<lparr>pm_project_id = existingProjectId, pm_user_id = pm_user_id m,
                    pm_role = pm_role m, pm_current_stage = Some nextProjectStage,
                    pm_progress_status = Some ''In Progress''\<rparr>)
           (filter (\<lambda>m. pm_project_id m = projectId \<and> pm_user_id m = userId)
              (t_project_members d))\<rparr>"

text \<open>
  \<open>UPDATE project_members SET progress_status = 'In Progress'
  WHERE project_id = ? AND user_id = ?\<close>
\<close>

definition updateUserStatusQuery :: "nat \<Rightarrow> nat \<Rightarrow> db \<Rightarrow> db" where
  "updateUserStatusQuery existingProjectId userId d =
     d\<lparr>t_project_members :=
         map (\<lambda>m. if pm_project_id m = existingProjectId \<and> pm_user_id m = userId
                  then m\<lparr>pm_progress_status := Some ''In Progress''\<rparr> else m)
           (t_project_members d)\<rparr>"

text \<open>The INSERT of the next stage's row; its result is \<open>insertId\<close>.\<close>

definition createNextStageQuery ::
  "user_history \<Rightarrow> string \<Rightarrow> nat \<Rightarrow> date \<Rightarrow> date \<Rightarrow> db \<Rightarrow> nat \<times> db" where
  "createNextStageQuery currentProject nextProjectStage projectId stageStartDate stageDueDate d =
     (next_history_id d,
      d\<lparr>t_user_history :=
          t_user_history d @
          [\<lparr>uh_id = next_history_id d,
            uh_user_id = uh_user_id currentProject,
            uh_organization = uh_organization currentProject,
            uh_project_name = uh_project_name currentProject,
            uh_project_description = uh_project_description currentProject,
            uh_stage = nextProjectStage,
            uh_project_id = Some (js_or_nat (uh_project_id currentProject) projectId),
            uh_status = ''In Progress'',
            uh_carbon_emit = 0,
            uh_session_duration = 0,
            uh_stage_duration = uh_stage_duration currentProject,
            uh_stage_start_date = Some stageStartDate,
            uh_stage_due_date = Some stageDueDate,
            uh_project_start_date = uh_project_start_date currentProject,
            uh_project_due_date = uh_project_due_date currentProject\<rparr>],
        next_history_id := Suc (next_history_id d)\<rparr>)"

definition transferMembersQuery :: "nat \<Rightarrow> db \<Rightarrow> project_members list" where
  "transferMembersQuery projectId d =
     filter (\<lambda>m. pm_project_id m = projectId) (t_project_members d)"

definition memberValues :: "nat \<Rightarrow> string \<Rightarrow> nat \<Rightarrow> project_members list \<Rightarrow> project_members list" where
  "memberValues newProjectId nextProjectStage userId membersToTransfer =
     map (\<lambda>member.
            \<lparr>pm_project_id = newProjectId, pm_user_id = pm_user_id member,
             pm_role = pm_role member, pm_current_stage = Some nextProjectStage,
             pm_progress_status =
               (if pm_role member = ''project_owner'' then None
                else if pm_user_id member = userId then Some ''In Progress''
                else Some ''Not Started'')\<rparr>)
       membersToTransfer"

definition addMembersQuery :: "project_members list \<Rightarrow> db \<Rightarrow> db" where
  "addMembersQuery values d = d\<lparr>t_project_members := t_project_members d @ values\<rparr>"

definition getCompletedUsersQuery :: "nat \<Rightarrow> db \<Rightarrow> nat" where
  "getCompletedUsersQuery projectId d =
     length (filter (\<lambda>m. pm_project_id m = projectId \<and>
                          pm_progress_status m = Some ''Stage Complete'')
               (t_project_members d))"

definition totalMembersQuery :: "nat \<Rightarrow> db \<Rightarrow> nat" where
  "totalMembersQuery projectId d =
     length (filter (\<lambda>m. pm_project_id m = projectId) (t_project_members d))"

text \<open>
  Every branch ends the same way: \<open>connection.commit\<close>, and on its error a rollback and
  the reply 500 'Failed to commit transaction'.
\<close>

definition commit_and_reply ::
  "complete_result \<Rightarrow> outcome list \<Rightarrow> conn \<Rightarrow> complete_result reply \<times> outcome list \<times> conn" where
  "commit_and_reply r os c =
     (case commit os c of
        (Some _, os', c') \<Rightarrow> (Err 500 ''Failed to commit transaction'', os', rollback c')
      | (None, os', c') \<Rightarrow> (Ok r, os', c'))"

definition stage_reply :: "bool \<Rightarrow> nat \<Rightarrow> string \<Rightarrow> complete_result" where
  "stage_reply allCompleted newStageId nextProjectStage =
     \<lparr>cr_status = (if allCompleted then ''Stage-Completed'' else ''Stage-User-Completed''),
      cr_newStageId = Some newStageId, cr_stage = nextProjectStage,
      cr_completedMembers = None, cr_totalMembers = None\<rparr>"

text \<open>Lines 1599-1701: a row for the next stage exists.\<close>

definition moveToExistingStage ::
  "nat \<Rightarrow> nat \<Rightarrow> string \<Rightarrow> bool \<Rightarrow> nat \<Rightarrow> outcome list \<Rightarrow> conn \<Rightarrow>
   complete_result reply \<times> outcome list \<times> conn" where
  "moveToExistingStage projectId userId nextProjectStage allCompleted existingProjectId os c =
     (case queryDatabase (select (checkMembershipQuery existingProjectId userId)) os c of
        (Inl _, os1, c1) \<Rightarrow> (Err 500 ''Failed to check membership'', os1, rollback c1)
      | (Inr membershipResult, os1, c1) \<Rightarrow>
          if length membershipResult = 0 then
            (case queryDatabase
                    (execute (addToNextStageQuery existingProjectId nextProjectStage
                       projectId userId)) os1 c1 of
               (Inl _, os2, c2) \<Rightarrow> (Err 500 ''Failed to add to next stage'', os2, rollback c2)
             | (Inr _, os2, c2) \<Rightarrow>
                 commit_and_reply
                   (stage_reply allCompleted existingProjectId nextProjectStage) os2 c2)
          else
            (case queryDatabase (execute (updateUserStatusQuery existingProjectId userId))
                    os1 c1 of
               (Inl _, os2, c2) \<Rightarrow> (Err 500 ''Failed to update user status'', os2, rollback c2)
             | (Inr _, os2, c2) \<Rightarrow>
                 commit_and_reply
                   (stage_reply allCompleted existingProjectId nextProjectStage) os2 c2))"

text \<open>
  Lines 1702-1862: no such row; create it and transfer the members. \<open>setDate\<close> moves the
  start date by \<open>stage_duration || 14\<close> days.
\<close>

definition createNextStage ::
  "user_history \<Rightarrow> nat \<Rightarrow> nat \<Rightarrow> string \<Rightarrow> bool \<Rightarrow> date \<Rightarrow> outcome list \<Rightarrow> conn \<Rightarrow>
   complete_result reply \<times> outcome list \<times> conn" where
  "createNextStage currentProject projectId userId nextProjectStage allCompleted now os c =
     (let stageStartDate = now;
          stageDueDate = stageStartDate + js_or_int (uh_stage_duration currentProject) 14
      in case queryDatabase
                (createNextStageQuery currentProject nextProjectStage projectId
                   stageStartDate stageDueDate) os c of
           (Inl _, os1, c1) \<Rightarrow>
             (Err 500 ''Failed to create next stage project'', os1, rollback c1)
         | (Inr newProjectId, os1, c1) \<Rightarrow>
             (case queryDatabase (select (transferMembersQuery projectId)) os1 c1 of
                (Inl _, os2, c2) \<Rightarrow>
                  (Err 500 ''Failed to get members to transfer'', os2, rollback c2)
              | (Inr membersToTransfer, os2, c2) \<Rightarrow>
                  let values = memberValues newProjectId nextProjectStage userId membersToTransfer
                  in if length values = 0 then
                       commit_and_reply
                         \<lparr>cr_status = ''Stage completed successfully'',
                          cr_newStageId = Some newProjectId, cr_stage = nextProjectStage,
                          cr_completedMembers = None, cr_totalMembers = None\<rparr> os2 c2
                     else
                       (case queryDatabase (execute (addMembersQuery values)) os2 c2 of
                          (Inl _, os3, c3) \<Rightarrow>
                            (Err 500 ''Failed to transfer members'', os3, rollback c3)
                        | (Inr _, os3, c3) \<Rightarrow>
                            (case queryDatabase (select (getCompletedUsersQuery projectId))
                                    os3 c3 of
                               (Inl _, os4, c4) \<Rightarrow>
                                 (Err 500 ''Failed to count completed users'', os4, rollback c4)
                             | (Inr completedCount, os4, c4) \<Rightarrow>
                                 (case queryDatabase (select (totalMembersQuery projectId))
                                         os4 c4 of
                                    (Inl _, os5, c5) \<Rightarrow>
                                      (Err 500 ''Failed to count total users'', os5, rollback c5)
                                  | (Inr totalCount, os5, c5) \<Rightarrow>
                                      commit_and_reply
                                        (if allCompleted
                                         then stage_reply True newProjectId nextProjectStage
                                         else (stage_reply False newProjectId nextProjectStage)
                                                \<lparr>cr_completedMembers := Some completedCount,
                                                 cr_totalMembers := Some totalCount\<rparr>)
                                        os5 c5)))))"

definition complete_project ::
  "nat \<Rightarrow> nat \<Rightarrow> string option \<Rightarrow> string option \<Rightarrow> date \<Rightarrow> outcome list \<Rightarrow> conn \<Rightarrow>
   complete_result reply \<times> outcome list \<times> conn" where
  "complete_project projectId userId nextStage currentStage now os c =
     (case queryDatabase (select (getCurrentProjectQuery projectId)) os c of
        (Inl _, os0, c0) \<Rightarrow> (Err 500 ''Failed to get current project'', os0, c0)
      | (Inr [], os0, c0) \<Rightarrow> (Err 404 ''Project not found'', os0, c0)
      | (Inr (currentProject # _), os0, c0) \<Rightarrow>
          (case beginTransaction os0 c0 of
             (Some _, os1, c1) \<Rightarrow> (Err 500 ''Transaction error'', os1, c1)
           | (None, os1, c1) \<Rightarrow>
          (case queryDatabase
                  (execute (completeCurrentStageQuery projectId userId
                     (js_or_str currentStage (uh_stage currentProject)) now)) os1 c1 of
             (Inl _, os2, c2) \<Rightarrow>
               (Err 500 ''Failed to complete current stage'', os2, rollback c2)
           | (Inr _, os2, c2) \<Rightarrow>
          (case queryDatabase (execute (updateUserProgressQuery projectId userId)) os2 c2 of
             (Inl _, os3, c3) \<Rightarrow>
               (Err 500 ''Failed to update user progress'', os3, rollback c3)
           | (Inr _, os3, c3) \<Rightarrow>
          (case checkAndUpdateProjectCompletion projectId os3 c3 of
             ((Some _, _), os4, c4) \<Rightarrow>
               (Err 500 ''Failed to check project completion'', os4, rollback c4)
           | ((None, allCompleted), os4, c4) \<Rightarrow>
          (case js_or_null nextStage of
             None \<Rightarrow>
               commit_and_reply
                 \<lparr>cr_status =
                    (if allCompleted then ''Project-Completed'' else ''User-Stage-Completed''),
                  cr_newStageId = None, cr_stage = uh_stage currentProject,
                  cr_completedMembers = None, cr_totalMembers = None\<rparr> os4 c4
           | Some nextProjectStage \<Rightarrow>
          (case queryDatabase
                  (select (checkExistingQuery (uh_project_name currentProject)
                     (uh_project_description currentProject) nextProjectStage
                     (js_or_nat (uh_project_id currentProject) projectId))) os4 c4 of
             (Inl _, os5, c5) \<Rightarrow>
               (Err 500 ''Failed to check existing project'', os5, rollback c5)
           | (Inr (existing # _), os5, c5) \<Rightarrow>
               moveToExistingStage projectId userId nextProjectStage allCompleted
                 (uh_id existing) os5 c5
           | (Inr [], os5, c5) \<Rightarrow>
               createNextStage currentProject projectId userId nextProjectStage allCompleted
                 now os5 c5)))))))"

section \<open>Responding to an invitation: PUT /invitations/:id/respond (lines 2182-2254)\<close>

text \<open>
  \<open>UPDATE notifications SET response = ?, status = 'read' WHERE id = ? AND recipient_id = ?\<close>
\<close>

definition updateQuery_respond :: "string \<Rightarrow> nat \<Rightarrow> nat \<Rightarrow> db \<Rightarrow> db" where
  "updateQuery_respond response notificationId userId d =
     d\<lparr>t_notifications :=
         map (\<lambda>n. if n_id n = notificationId \<and> n_recipient_id n = userId
                  then n\<lparr>n_response := Some response, n_status := ''read''\<rparr> else n)
           (t_notifications d)\<rparr>"

definition getProjectIdQuery :: "nat \<Rightarrow> nat \<Rightarrow> db \<Rightarrow> notifications list" where
  "getProjectIdQuery notificationId userId d =
     filter (\<lambda>n. n_id n = notificationId \<and> n_recipient_id n = userId) (t_notifications d)"

text \<open>
  Modelled from the spec: the declaration of project_members, with the defaults of the
  columns an INSERT leaves out, is not in the repository; section 9 says that the
  progress status of an accepted invitee defaults to null, and the same is taken for
  \<open>current_stage\<close>.
\<close>

definition default_current_stage :: "string option" where
  "default_current_stage = None"

definition default_progress_status :: "string option" where
  "default_progress_status = None"

text \<open>\<open>INSERT INTO project_members (project_id, user_id, role) VALUES (?, ?, 'member')\<close>\<close>

definition insertMemberQuery :: "nat \<Rightarrow> nat \<Rightarrow> db \<Rightarrow> db" where
  "insertMemberQuery projectId userId d =
     d\<lparr>t_project_members :=
         t_project_members d @
         [\<lparr>pm_project_id = projectId, pm_user_id = userId, pm_role = ''member'',
           pm_current_stage = default_current_stage,
           pm_progress_status = default_progress_status\<rparr>]\<rparr>"

definition commit_respond :: "outcome list \<Rightarrow> conn \<Rightarrow> string reply \<times> outcome list \<times> conn" where
  "commit_respond os c =
     (case commit os c of
        (Some _, os', c') \<Rightarrow> (Err 500 ''Transaction commit error'', os', rollback c')
      | (None, os', c') \<Rightarrow> (Ok ''Invitation response recorded successfully'', os', c'))"

text \<open>
  A rejected promise lands in the \<open>catch\<close>, which rolls back. \<open>results[0].project_id\<close> on
  an empty result throws inside the query callback, where nothing catches it: no reply
  is sent and the transaction stays open.
\<close>

definition respond_invitation ::
  "nat \<Rightarrow> nat \<Rightarrow> string \<Rightarrow> outcome list \<Rightarrow> conn \<Rightarrow> string reply \<times> outcome list \<times> conn" where
  "respond_invitation notificationId userId response os c =
     (case beginTransaction os c of
        (Some _, os0, c0) \<Rightarrow> (Err 500 ''Transaction error'', os0, c0)
      | (None, os0, c0) \<Rightarrow>
     (case queryDatabase (execute (updateQuery_respond response notificationId userId)) os0 c0 of
        (Inl _, os1, c1) \<Rightarrow> (Err 500 ''Transaction error'', os1, rollback c1)
      | (Inr _, os1, c1) \<Rightarrow>
          if response = ''accepted'' then
            (case queryDatabase (select (getProjectIdQuery notificationId userId)) os1 c1 of
               (Inl _, os2, c2) \<Rightarrow> (Err 500 ''Transaction error'', os2, rollback c2)
             | (Inr [], os2, c2) \<Rightarrow> (Uncaught ''TypeError'', os2, c2)
             | (Inr (n # _), os2, c2) \<Rightarrow>
                 (case queryDatabase (execute (insertMemberQuery (n_project_id n) userId))
                         os2 c2 of
                    (Inl _, os3, c3) \<Rightarrow> (Err 500 ''Transaction error'', os3, rollback c3)
                  | (Inr _, os3, c3) \<Rightarrow> commit_respond os3 c3))
          else commit_respond os1 c1))"

section \<open>Adding a member: POST /add_project_member (lines 3465-3541)\<close>

definition checkMemberQuery :: "nat \<Rightarrow> nat \<Rightarrow> db \<Rightarrow> project_members list" where
  "checkMemberQuery projectId userId d =
     filter (\<lambda>m. pm_project_id m = projectId \<and> pm_user_id m = userId) (t_project_members d)"

text \<open>\<open>INSERT INTO project_members (project_id, user_id, role, joined_at) VALUES (?, ?, ?, NOW())\<close>\<close>

definition addMemberQuery :: "nat \<Rightarrow> nat \<Rightarrow> string \<Rightarrow> db \<Rightarrow> db" where
  "addMemberQuery projectId userId role d =
     d\<lparr>t_project_members :=
         t_project_members d @
         [\<lparr>pm_project_id = projectId, pm_user_id = userId, pm_role = role,
           pm_current_stage = default_current_stage,
           pm_progress_status = default_progress_status\<rparr>]\<rparr>"

text \<open>
  The part of the handler after the user's id is found from the email: the check for an
  existing membership, the INSERT, and the read of the project's members for the reply
  (their names are left out here).
\<close>

definition add_project_member ::
  "nat \<Rightarrow> nat \<Rightarrow> string \<Rightarrow> outcome list \<Rightarrow> conn \<Rightarrow> string reply \<times> outcome list \<times> conn" where
  "add_project_member projectId userId role os c =
     (if projectId = 0 \<or> role = [] then (Err 400 ''Missing required fields'', os, c)
      else
        (case queryDatabase (select (checkMemberQuery projectId userId)) os c of
           (Inl _, os1, c1) \<Rightarrow>
             (Err 500 ''Database error while checking existing member'', os1, c1)
         | (Inr memberResults, os1, c1) \<Rightarrow>
             if length memberResults > 0
             then (Err 400 ''User is already a member of this project'', os1, c1)
             else
               (case queryDatabase (execute (addMemberQuery projectId userId role)) os1 c1 of
                  (Inl _, os2, c2) \<Rightarrow> (Err 500 ''Database error while adding member'', os2, c2)
                | (Inr _, os2, c2) \<Rightarrow>
                    (case queryDatabase (select (transferMembersQuery projectId)) os2 c2 of
                       (Inl _, os3, c3) \<Rightarrow>
                         (Err 500 ''Database error while fetching members'', os3, c3)
                     | (Inr _, os3, c3) \<Rightarrow> (Ok ''Member added successfully'', os3, c3)))))"

section \<open>Project requests: approve and reject (lines 3803-3979)\<close>

text \<open>
  \<open>UPDATE project_requests SET status = ?, reviewer_id = ?, review_notes = ? WHERE id = ?\<close>;
  its result is \<open>affectedRows\<close>, the number of rows with that id.
\<close>

definition updateQuery_request ::
  "string \<Rightarrow> nat \<Rightarrow> string option \<Rightarrow> nat \<Rightarrow> db \<Rightarrow> nat \<times> db" where
  "updateQuery_request status reviewerId review_notes requestId d =
     (length (filter (\<lambda>r. pr_id r = requestId) (t_project_requests d)),
      d\<lparr>t_project_requests :=
          map (\<lambda>r. if pr_id r = requestId
                   then r\<lparr>pr_status := status, pr_reviewer_id := Some reviewerId,
                          pr_review_notes := review_notes\<rparr>
                   else r)
            (t_project_requests d)\<rparr>)"

definition getRequestQuery :: "nat \<Rightarrow> db \<Rightarrow> project_requests list" where
  "getRequestQuery requestId d = filter (\<lambda>r. pr_id r = requestId) (t_project_requests d)"

definition createProjectQuery :: "project_requests \<Rightarrow> db \<Rightarrow> nat \<times> db" where
  "createProjectQuery request d =
     (next_history_id d,
      d\<lparr>t_user_history :=
          t_user_history d @
          [\<lparr>uh_id = next_history_id d,
            uh_user_id = pr_user_id request,
            uh_organization = pr_organization request,
            uh_project_name = pr_title request,
            uh_project_description = pr_description request,
            uh_stage = pr_project_stage request,
            uh_project_id = None,
            uh_status = ''In Progress'',
            uh_carbon_emit = 0,
            uh_session_duration = 0,
            uh_stage_duration = pr_stage_duration request,
            uh_stage_start_date = pr_stage_start_date request,
            uh_stage_due_date = pr_stage_due_date request,
            uh_project_start_date = pr_project_start_date request,
            uh_project_due_date = pr_project_due_date request\<rparr>],
        next_history_id := Suc (next_history_id d)\<rparr>)"

text \<open>\<open>UPDATE user_history SET project_id = ? WHERE id = ?\<close>\<close>

definition updateProjectIdQuery :: "nat \<Rightarrow> db \<Rightarrow> db" where
  "updateProjectIdQuery projectId d =
     d\<lparr>t_user_history :=
         map (\<lambda>h. if uh_id h = projectId then h\<lparr>uh_project_id := Some projectId\<rparr> else h)
           (t_user_history d)\<rparr>"

text \<open>
  \<open>INSERT INTO project_members (project_id, user_id, role, current_stage, progress_status)
  VALUES (?, ?, 'project_owner', ?, 'In Progress')\<close>, and the same with 'project_leader'.
\<close>

definition addOwnerQuery :: "nat \<Rightarrow> nat \<Rightarrow> string \<Rightarrow> db \<Rightarrow> db" where
  "addOwnerQuery projectId userId stage d =
     d\<lparr>t_project_members :=
         t_project_members d @
         [\<lparr>pm_project_id = projectId, pm_user_id = userId, pm_role = ''project_owner'',
           pm_current_stage = Some stage, pm_progress_status = Some ''In Progress''\<rparr>]\<rparr>"

definition addLeaderQuery :: "nat \<Rightarrow> nat \<Rightarrow> string \<Rightarrow> db \<Rightarrow> db" where
  "addLeaderQuery projectId userId stage d =
     d\<lparr>t_project_members :=
         t_project_members d @
         [\<lparr>pm_project_id = projectId, pm_user_id = userId, pm_role = ''project_leader'',
           pm_current_stage = Some stage, pm_progress_status = Some ''In Progress''\<rparr>]\<rparr>"

definition approve_project_request ::
  "nat \<Rightarrow> nat \<Rightarrow> string option \<Rightarrow> outcome list \<Rightarrow> conn \<Rightarrow> nat reply \<times> outcome list \<times> conn" where
  "approve_project_request requestId reviewerId review_notes os c =
     (case beginTransaction os c of
        (Some _, os0, c0) \<Rightarrow> (Err 500 ''Transaction error'', os0, c0)
      | (None, os0, c0) \<Rightarrow>
     (case queryDatabase (updateQuery_request ''approved'' reviewerId review_notes requestId)
             os0 c0 of
        (Inl _, os1, c1) \<Rightarrow> (Err 500 ''Database error'', os1, rollback c1)
      | (Inr affectedRows, os1, c1) \<Rightarrow>
          if affectedRows = 0 then (Err 404 ''Request not found'', os1, rollback c1)
          else
     (case queryDatabase (select (getRequestQuery requestId)) os1 c1 of
        (Inl _, os2, c2) \<Rightarrow> (Err 500 ''Database error'', os2, rollback c2)
      | (Inr [], os2, c2) \<Rightarrow> (Err 404 ''Request not found'', os2, rollback c2)
      | (Inr (request # _), os2, c2) \<Rightarrow>
     (case queryDatabase (createProjectQuery request) os2 c2 of
        (Inl _, os3, c3) \<Rightarrow> (Err 500 ''Database error'', os3, rollback c3)
      | (Inr projectId, os3, c3) \<Rightarrow>
     (case queryDatabase (execute (updateProjectIdQuery projectId)) os3 c3 of
        (Inl _, os4, c4) \<Rightarrow> (Err 500 ''Failed to update project ID'', os4, rollback c4)
      | (Inr _, os4, c4) \<Rightarrow>
     (case queryDatabase
             (execute (addOwnerQuery projectId (pr_user_id request) (pr_project_stage request)))
             os4 c4 of
        (Inl _, os5, c5) \<Rightarrow> (Err 500 ''Failed to add project owner'', os5, rollback c5)
      | (Inr _, os5, c5) \<Rightarrow>
     (case queryDatabase
             (execute (addLeaderQuery projectId (pr_user_id request) (pr_project_stage request)))
             os5 c5 of
        (Inl _, os6, c6) \<Rightarrow> (Err 500 ''Failed to add project leader'', os6, rollback c6)
      | (Inr _, os6, c6) \<Rightarrow>
     (case commit os6 c6 of
        (Some _, os7, c7) \<Rightarrow> (Err 500 ''Transaction error'', os7, rollback c7)
      | (None, os7, c7) \<Rightarrow> (Ok projectId, os7, c7)))))))))"

definition reject_project_request ::
  "nat \<Rightarrow> nat \<Rightarrow> string option \<Rightarrow> outcome list \<Rightarrow> conn \<Rightarrow> string reply \<times> outcome list \<times> conn" where
  "reject_project_request requestId reviewerId review_notes os c =
     (case queryDatabase (updateQuery_request ''rejected'' reviewerId review_notes requestId)
             os c of
        (Inl _, os1, c1) \<Rightarrow> (Err 500 ''Database error'', os1, c1)
      | (Inr affectedRows, os1, c1) \<Rightarrow>
          if affectedRows = 0 then (Err 404 ''Request not found'', os1, c1)
          else (Ok ''Project request rejected successfully'', os1, c1))"

section \<open>Vocabulary of the properties, and example data\<close>

text \<open>The store answers every attempt; the connection is never lost.\<close>

definition answers :: "outcome list \<Rightarrow> bool" where
  "answers os = list_all (\<lambda>a. a = Succeeds) os"

definition no_conn_loss :: "outcome list \<Rightarrow> bool" where
  "no_conn_loss os = list_all (\<lambda>a. a \<noteq> ConnLost) os"

text \<open>The memberships that count for completion: those whose role is not project_owner.\<close>

definition contributors :: "nat \<Rightarrow> conn \<Rightarrow> project_members list" where
  "contributors projectId c = getMembersQuery projectId (tables c)"

text \<open>The connection is the one before, or the one a reconnection put in its place.\<close>

definition reconnected :: "conn \<Rightarrow> conn \<Rightarrow> bool" where
  "reconnected c c' \<longleftrightarrow> c' = c \<or> c' = createConnection c"

definition empty_db :: db where
  "empty_db =
     \<lparr>t_user_history = [], t_project_members = [], t_project_stage_progress = [],
      t_notifications = [], t_project_requests = [], t_users = [], t_user_devices = [],
      t_cpus = [], t_gpus = [], t_rams = [], t_cpusm = [], t_gpusm = [],
      next_history_id = 1\<rparr>"

definition design_row :: user_history where
  "design_row =
     \<lparr>uh_id = 1, uh_user_id = 1, uh_organization = ''Org'', uh_project_name = ''X'',
      uh_project_description = ''Y'', uh_stage = ''Design'', uh_project_id = Some 1,
      uh_status = ''In Progress'', uh_carbon_emit = 0, uh_session_duration = 0,
      uh_stage_duration = Some 7, uh_stage_start_date = Some 100,
      uh_stage_due_date = Some 107, uh_project_start_date = Some 100,
      uh_project_due_date = Some 142\<rparr>"

definition member_row :: "nat \<Rightarrow> nat \<Rightarrow> string \<Rightarrow> string option \<Rightarrow> project_members" where
  "member_row p u role progress =
     \<lparr>pm_project_id = p, pm_user_id = u, pm_role = role, pm_current_stage = Some ''Design'',
      pm_progress_status = progress\<rparr>"

definition autocommit :: "db \<Rightarrow> conn" where
  "autocommit d = \<lparr>tables = d, snapshot = None\<rparr>"

text \<open>Project 1 with its owner and one member, who has finished the stage.\<close>

definition finished_db :: db where
  "finished_db =
     empty_db\<lparr>t_user_history := [design_row],
              t_project_members :=
                [member_row 1 1 ''project_owner'' None,
                 member_row 1 2 ''member'' (Some ''Stage Complete'')],
              next_history_id := 2\<rparr>"

text \<open>The same project with a second member, who is still working.\<close>

definition unfinished_db :: db where
  "unfinished_db =
     finished_db\<lparr>t_project_members :=
                   t_project_members finished_db @
                   [member_row 1 3 ''member'' (Some ''In Progress'')]\<rparr>"

text \<open>The same project with nobody but its owner.\<close>

definition owner_only_db :: db where
  "owner_only_db =
     finished_db\<lparr>t_project_members := [member_row 1 1 ''project_owner'' None]\<rparr>"

text \<open>
  The first answer to come is an ordinary error.
\<close>

definition fails :: "outcome list \<Rightarrow> bool" where
  "fails os \<longleftrightarrow> os \<noteq> [] \<and> hd os = Fails"

text \<open>
  The AUTO_INCREMENT invariant of user_history: every id in the table is below the counter.
\<close>

definition fresh_ids :: "db \<Rightarrow> bool" where
  "fresh_ids d = list_all (\<lambda>h. uh_id h < next_history_id d) (t_user_history d)"

text \<open>
  The tables after a request is approved, and after an invitation is accepted.
\<close>

definition approved_tables :: "project_requests \<Rightarrow> nat \<Rightarrow> nat \<Rightarrow> string option \<Rightarrow> db \<Rightarrow> db" where
  "approved_tables request requestId reviewerId review_notes d =
     (let projectId = next_history_id d
      in d\<lparr>t_project_requests :=
             map (\<lambda>r. if pr_id r = requestId
                      then r\<lparr>pr_status := ''approved'', pr_reviewer_id := Some reviewerId,
                             pr_review_notes := review_notes\<rparr>
                      else r) (t_project_requests d),
           t_user_history :=
             t_user_history d @
             [\<lparr>uh_id = projectId, uh_user_id = pr_user_id request,
               uh_organization = pr_organization request, uh_project_name = pr_title request,
               uh_project_description = pr_description request,
               uh_stage = pr_project_stage request, uh_project_id = Some projectId,
               uh_status = ''In Progress'', uh_carbon_emit = 0, uh_session_duration = 0,
               uh_stage_duration = pr_stage_duration request,
               uh_stage_start_date = pr_stage_start_date request,
               uh_stage_due_date = pr_stage_due_date request,
               uh_project_start_date = pr_project_start_date request,
               uh_project_due_date = pr_project_due_date request\<rparr>],
           t_project_members :=
             t_project_members d @
             [\<lparr>pm_project_id = projectId, pm_user_id = pr_user_id request,
               pm_role = ''project_owner'', pm_current_stage = Some (pr_project_stage request),
               pm_progress_status = Some ''In Progress''\<rparr>,
              \<lparr>pm_project_id = projectId, pm_user_id = pr_user_id request,
               pm_role = ''project_leader'', pm_current_stage = Some (pr_project_stage request),
               pm_progress_status = Some ''In Progress''\<rparr>],
           next_history_id := Suc (next_history_id d)\<rparr>)"

definition responded_tables :: "notifications \<Rightarrow> nat \<Rightarrow> nat \<Rightarrow> db \<Rightarrow> db" where
  "responded_tables n notificationId userId d =
     d\<lparr>t_notifications :=
         map (\<lambda>n. if n_id n = notificationId \<and> n_recipient_id n = userId
                  then n\<lparr>n_response := Some ''accepted'', n_status := ''read''\<rparr> else n)
           (t_notifications d),
       t_project_members :=
         t_project_members d @
         [\<lparr>pm_project_id = n_project_id n, pm_user_id = userId, pm_role = ''member'',
           pm_current_stage = None, pm_progress_status = None\<rparr>]\<rparr>"

text \<open>
  The tables after the first two steps of completing a stage, and after the evaluation
  that follows them, with its verdict.
\<close>

definition after_progress :: "nat \<Rightarrow> nat \<Rightarrow> string \<Rightarrow> date \<Rightarrow> db \<Rightarrow> db" where
  "after_progress projectId userId stage now d =
     updateUserProgressQuery projectId userId (completeCurrentStageQuery projectId userId stage now d)"

definition after_evaluation :: "nat \<Rightarrow> nat \<Rightarrow> string \<Rightarrow> date \<Rightarrow> db \<Rightarrow> bool \<times> db" where
  "after_evaluation projectId userId stage now d =
     (let d2 = after_progress projectId userId stage now d;
          ms = getMembersQuery projectId d2;
          allCompleted = (ms \<noteq> [] \<and>
             list_all (\<lambda>m. pm_progress_status m = Some ''Stage Complete'') ms)
      in (allCompleted, if allCompleted then updateProjectQuery projectId d2 else d2))"

text \<open>
  Example data. The project of \<open>unfinished_db\<close> with users, devices and wattages: user 1
  owns it and lives in an unlisted region; users 2 and 3 are members and share device 2;
  user 5 has nothing to do with the project.
\<close>

definition emission_db :: db where
  "emission_db =
     unfinished_db\<lparr>
       t_users := [\<lparr>u_id = 1, u_current_device_id = Some 1, u_region = Some ''Mars''\<rparr>,
                   \<lparr>u_id = 2, u_current_device_id = Some 2, u_region = Some ''Philippines''\<rparr>,
                   \<lparr>u_id = 3, u_current_device_id = Some 2, u_region = None\<rparr>,
                   \<lparr>u_id = 5, u_current_device_id = Some 1, u_region = Some ''Singapore''\<rparr>],
       t_user_devices := [\<lparr>ud_id = 1, ud_cpu = ''cpuA'', ud_gpu = ''gpuA'', ud_ram = ''ramA'',
                            ud_psu = 100\<rparr>,
                          \<lparr>ud_id = 2, ud_cpu = ''cpuB'', ud_gpu = ''gpuB'', ud_ram = ''ramA'',
                            ud_psu = 65\<rparr>],
       t_cpus := [(''cpuA'', 100)], t_gpus := [(''gpuA'', 40)], t_rams := [(''ramA'', 10)],
       t_cpusm := [(''cpuA'', 100), (''cpuB'', 200)],
       t_gpusm := [(''gpuA'', 40), (''gpuB'', 40)]\<rparr>"

text \<open>
  The same with an archived row for the next stage, with a stage duration of 0, and with
  a row of another user, outside every project group, that has the project's name and
  description and the next stage.
\<close>

definition archived_db :: db where
  "archived_db =
     emission_db\<lparr>t_user_history :=
                    [design_row,
                     design_row\<lparr>uh_id := 2, uh_stage := ''Development'',
                                uh_status := ''Archived''\<rparr>],
                  next_history_id := 3\<rparr>"

definition zero_duration_db :: db where
  "zero_duration_db =
     emission_db\<lparr>t_user_history := [design_row\<lparr>uh_stage_duration := Some 0\<rparr>]\<rparr>"

definition stranger_row :: user_history where
  "stranger_row =
     \<lparr>uh_id = 2, uh_user_id = 9, uh_organization = ''Elsewhere'', uh_project_name = ''X'',
      uh_project_description = ''Y'', uh_stage = ''Development'', uh_project_id = None,
      uh_status = ''In Progress'', uh_carbon_emit = 0, uh_session_duration = 0,
      uh_stage_duration = None, uh_stage_start_date = None, uh_stage_due_date = None,
      uh_project_start_date = None, uh_project_due_date = None\<rparr>"

definition stranger_db :: db where
  "stranger_db =
     emission_db\<lparr>t_user_history := [design_row, stranger_row], next_history_id := 3\<rparr>"

text \<open>
  A model name with a plus sign, which the query parser of the endpoint reads as a space.
  For a name whose other characters are letters and digits that is all that happens to
  it on the way.
\<close>

definition plus_as_space :: "string \<Rightarrow> string option" where
  "plus_as_space name = Some (map (\<lambda>ch. if ch = CHR ''+'' then CHR '' '' else ch) name)"

definition plus_db :: db where
  "plus_db =
     emission_db\<lparr>t_user_devices :=
                    [\<lparr>ud_id = 1, ud_cpu = ''cpu+A'', ud_gpu = ''gpuA'', ud_ram = ''ramA'',
                      ud_psu = 100\<rparr>],
                  t_cpus := [(''cpu+A'', 100)]\<rparr>"

text \<open>
  A pending project request, approved once and then once more.
\<close>

definition request_row :: project_requests where
  "request_row =
     \<lparr>pr_id = 1, pr_user_id = 1, pr_title = ''X'', pr_description = ''Y'',
      pr_project_stage = ''Design'', pr_organization = ''Org'', pr_stage_duration = Some 7,
      pr_stage_start_date = Some 100, pr_stage_due_date = Some 107,
      pr_project_start_date = Some 100, pr_project_due_date = Some 142,
      pr_status = ''pending'', pr_reviewer_id = None, pr_review_notes = None\<rparr>"

definition pending_db :: db where
  "pending_db = empty_db\<lparr>t_project_requests := [request_row]\<rparr>"

definition approved_once :: conn where
  "approved_once = snd (snd (approve_project_request 1 9 None [] (autocommit pending_db)))"

definition approved_twice :: conn where
  "approved_twice = snd (snd (approve_project_request 1 9 None [] approved_once))"

text \<open>
  An invitation of user 4 to project 1, accepted once and then once more.
\<close>

definition invitation_row :: notifications where
  "invitation_row =
     \<lparr>n_id = 1, n_sender_id = 1, n_recipient_id = 4, n_project_id = 1,
      n_type = ''project_invitation'', n_message = ''join us'', n_status = ''unread'',
      n_response = None\<rparr>"

definition invited_db :: db where
  "invited_db = finished_db\<lparr>t_notifications := [invitation_row]\<rparr>"

definition accepted_once :: conn where
  "accepted_once = snd (snd (respond_invitation 1 4 ''accepted'' [] (autocommit invited_db)))"

definition accepted_twice :: conn where
  "accepted_twice = snd (snd (respond_invitation 1 4 ''accepted'' [] accepted_once))"

section \<open>Properties of queryDatabase and of transactions\<close>

lemmas example_defs =
  autocommit_def emission_db_def unfinished_db_def finished_db_def empty_db_def
  member_row_def design_row_def

lemmas query_defs =
  select_def execute_def getCurrentProjectQuery_def completeCurrentStageQuery_def
  updateUserProgressQuery_def getMembersQuery_def updateProjectQuery_def checkExistingQuery_def
  checkMembershipQuery_def addToNextStageQuery_def updateUserStatusQuery_def
  createNextStageQuery_def transferMembersQuery_def memberValues_def addMembersQuery_def
  getCompletedUsersQuery_def totalMembersQuery_def js_or_nat_def js_or_int_def js_or_str_def
  js_or_null_def

lemmas handler_defs =
  complete_project_def checkAndUpdateProjectCompletion_def moveToExistingStage_def
  createNextStage_def commit_and_reply_def stage_reply_def rollback_def createConnection_def

lemmas respond_defs =
  respond_invitation_def commit_respond_def updateQuery_respond_def getProjectIdQuery_def
  insertMemberQuery_def default_current_stage_def default_progress_status_def
  invitation_row_def invited_db_def

lemma queryDatabase_answers:
  "answers os \<Longrightarrow>
   queryDatabase q os c = (Inr (fst (q (tables c))), tl os, c\<lparr>tables := snd (q (tables c))\<rparr>)"
  by (cases os) (auto simp: answers_def split: prod.splits)

lemma answers_tl: "answers os \<Longrightarrow> answers (tl os)"
  by (cases os) (auto simp: answers_def)

lemma no_conn_loss_tl: "no_conn_loss os \<Longrightarrow> no_conn_loss (tl os)"
  by (cases os) (auto simp: no_conn_loss_def)

lemma queryDatabase_no_conn_loss:
  assumes "no_conn_loss os"
  shows "queryDatabase q os c = (Inl DbError, tl os, c) \<or>
         queryDatabase q os c =
           (Inr (fst (q (tables c))), tl os, c\<lparr>tables := snd (q (tables c))\<rparr>)"
proof (cases os)
  case Nil
  then show ?thesis by (simp split: prod.splits)
next
  case (Cons a as)
  with assms show ?thesis
    by (cases a) (simp_all add: no_conn_loss_def split: prod.splits)
qed

lemma createConnection_idem: "createConnection (createConnection c) = createConnection c"
  by (simp add: createConnection_def)

lemma reconnected_trans: "reconnected c c1 \<Longrightarrow> reconnected c1 c2 \<Longrightarrow> reconnected c c2"
  by (auto simp: reconnected_def createConnection_idem)

text \<open>
  Whatever the answers, a query ends on the connection it started on or on its
  replacement, and either fails there without effect or runs there once.
\<close>

lemma queryDatabase_cases:
  "\<exists>os' c1. reconnected c c1 \<and>
     (queryDatabase q os c = (Inl DbError, os', c1) \<or>
      queryDatabase q os c =
        (Inr (fst (q (tables c1))), os', c1\<lparr>tables := snd (q (tables c1))\<rparr>))"
proof (induction q os c rule: queryDatabase.induct)
  case (4 q os c)
  then obtain os' c1 where r: "reconnected (createConnection c) c1"
    and q: "queryDatabase q os (createConnection c) = (Inl DbError, os', c1) \<or>
      queryDatabase q os (createConnection c) =
        (Inr (fst (q (tables c1))), os', c1\<lparr>tables := snd (q (tables c1))\<rparr>)"
    by blast
  from r have "reconnected c c1"
    by (auto simp: reconnected_def createConnection_idem)
  with q show ?case by (simp only: queryDatabase.simps) blast
qed (auto simp: reconnected_def split: prod.splits)

lemma select_tables [simp]:
  "c\<lparr>tables := snd (select f (tables c))\<rparr> = c" "fst (select f d) = f d"
  by (simp_all add: select_def)

lemma snd_select [simp]: "snd (select f d) = d"
  by (simp add: select_def)

lemma beginTransaction_answers:
  "answers os \<Longrightarrow> beginTransaction os c = (None, tl os, c\<lparr>snapshot := Some (tables c)\<rparr>)"
  by (cases os) (auto simp: answers_def)

lemma commit_answers:
  "answers os \<Longrightarrow> commit os c = (None, tl os, c\<lparr>snapshot := None\<rparr>)"
  by (cases os) (auto simp: answers_def)

lemma answers_tls:
  assumes "answers os"
  shows "answers (tl os)" "answers (tl (tl os))" "answers (tl (tl (tl os)))"
    "answers (tl (tl (tl (tl os))))" "answers (tl (tl (tl (tl (tl os)))))"
    "answers (tl (tl (tl (tl (tl (tl os))))))" "answers (tl (tl (tl (tl (tl (tl (tl os)))))))"
    "answers (tl (tl (tl (tl (tl (tl (tl (tl os))))))))"
    "answers (tl (tl (tl (tl (tl (tl (tl (tl (tl os)))))))))"
    "answers (tl (tl (tl (tl (tl (tl (tl (tl (tl (tl os))))))))))"
  using assms by (simp_all add: answers_tl)

lemma queryDatabase_eq:
  "no_conn_loss os \<Longrightarrow>
   queryDatabase q os c =
     (if fails os then (Inl DbError, tl os, c)
      else (Inr (fst (q (tables c))), tl os, c\<lparr>tables := snd (q (tables c))\<rparr>))"
  by (cases "(q, os, c)" rule: queryDatabase.cases)
     (auto simp: no_conn_loss_def fails_def split: prod.splits)

lemma beginTransaction_eq:
  "no_conn_loss os \<Longrightarrow>
   beginTransaction os c =
     (if fails os then (Some DbError, tl os, c)
      else (None, tl os, c\<lparr>snapshot := Some (tables c)\<rparr>))"
  by (cases "(os, c)" rule: beginTransaction.cases)
     (auto simp: no_conn_loss_def fails_def)

lemma commit_eq:
  "no_conn_loss os \<Longrightarrow>
   commit os c =
     (if fails os then (Some DbError, tl os, c) else (None, tl os, c\<lparr>snapshot := None\<rparr>))"
  by (cases "(os, c)" rule: commit.cases)
     (auto simp: no_conn_loss_def fails_def)

lemma filter_upd_rows:
  "(\<And>x. P (f x) = P x) \<Longrightarrow>
   filter P (map (\<lambda>x. if P x then f x else x) xs) = map f (filter P xs)"
  by (induction xs) simp_all

lemma filter_map_same:
  "(\<And>x. P (f x) = P x) \<Longrightarrow> filter P (map f xs) = map f (filter P xs)"
  by (induction xs) simp_all

section \<open>The completion evaluator\<close>

lemma check_answers:
  assumes "answers os"
  shows "checkAndUpdateProjectCompletion projectId os c =
     (if contributors projectId c = [] then ((None, False), tl os, c)
      else if list_all (\<lambda>m. pm_progress_status m = Some ''Stage Complete'')
                (contributors projectId c)
      then ((None, True), tl (tl os), c\<lparr>tables := updateProjectQuery projectId (tables c)\<rparr>)
      else ((None, False), tl os, c))"
  using assms answers_tl [OF assms]
  by (simp add: checkAndUpdateProjectCompletion_def queryDatabase_answers
      execute_def contributors_def Let_def)

lemma check_no_write:
  assumes "\<not> snd (fst (checkAndUpdateProjectCompletion projectId os c))"
  shows "reconnected c (snd (snd (checkAndUpdateProjectCompletion projectId os c)))"
proof -
  obtain os1 c1 where r1: "reconnected c c1"
    and q1: "queryDatabase (select (getMembersQuery projectId)) os c = (Inl DbError, os1, c1) \<or>
       queryDatabase (select (getMembersQuery projectId)) os c =
         (Inr (getMembersQuery projectId (tables c1)), os1, c1)"
    using queryDatabase_cases [of c "select (getMembersQuery projectId)" os] by auto
  obtain os2 c2 where r2: "reconnected c1 c2"
    and q2: "queryDatabase (execute (updateProjectQuery projectId)) os1 c1 =
         (Inl DbError, os2, c2) \<or>
       queryDatabase (execute (updateProjectQuery projectId)) os1 c1 =
         (Inr (), os2, c2\<lparr>tables := updateProjectQuery projectId (tables c2)\<rparr>)"
    using queryDatabase_cases [of c1 "execute (updateProjectQuery projectId)" os1]
    by (auto simp: execute_def)
  from q1 q2 assms r1 reconnected_trans [OF r1 r2] show ?thesis
    by (auto simp: checkAndUpdateProjectCompletion_def Let_def split: if_splits)
qed

lemma check_no_conn_loss:
  assumes "no_conn_loss os"
  shows "snd (snd (checkAndUpdateProjectCompletion projectId os c)) =
     (if snd (fst (checkAndUpdateProjectCompletion projectId os c))
      then c\<lparr>tables := updateProjectQuery projectId (tables c)\<rparr> else c)"
  using queryDatabase_no_conn_loss [OF assms, of "select (getMembersQuery projectId)" c]
    queryDatabase_no_conn_loss [OF no_conn_loss_tl [OF assms],
      of "execute (updateProjectQuery projectId)" c]
  by (auto simp: checkAndUpdateProjectCompletion_def Let_def execute_def split: if_splits)

lemma check_result_no_conn_loss:
  assumes "no_conn_loss os"
  shows "snd (fst (checkAndUpdateProjectCompletion projectId os c)) \<longleftrightarrow>
           fst (fst (checkAndUpdateProjectCompletion projectId os c)) = None \<and>
           contributors projectId c \<noteq> [] \<and>
           (\<forall>m \<in> set (contributors projectId c).
              pm_progress_status m = Some ''Stage Complete'')"
  using assms
  by (auto simp: checkAndUpdateProjectCompletion_def queryDatabase_eq no_conn_loss_tl
      execute_def Let_def contributors_def list_all_iff split: if_splits)

text \<open>
  C1. While the connection holds, the evaluator reports complete exactly when its queries
  succeed, the instance has at least one membership whose role is not project_owner, and
  every such membership has progress_status 'Stage Complete'. With no such membership it
  reports not complete, whatever else the store holds. When it reports complete it has
  set the status of the instance's row to 'Complete' and changed nothing else. When the
  store answers every query, no error is reported.
\<close>

theorem checkAndUpdateProjectCompletion_iff:
  "(no_conn_loss os \<longrightarrow>
      (snd (fst (checkAndUpdateProjectCompletion projectId os c)) \<longleftrightarrow>
         fst (fst (checkAndUpdateProjectCompletion projectId os c)) = None \<and>
         contributors projectId c \<noteq> [] \<and>
         (\<forall>m \<in> set (contributors projectId c).
            pm_progress_status m = Some ''Stage Complete'')) \<and>
      (contributors projectId c = [] \<longrightarrow>
         \<not> snd (fst (checkAndUpdateProjectCompletion projectId os c))) \<and>
      (snd (fst (checkAndUpdateProjectCompletion projectId os c)) \<longrightarrow>
         snd (snd (checkAndUpdateProjectCompletion projectId os c)) =
           c\<lparr>tables := (tables c)\<lparr>t_user_history :=
                map (\<lambda>h. if uh_id h = projectId then h\<lparr>uh_status := ''Complete''\<rparr> else h)
                  (t_user_history (tables c))\<rparr>\<rparr>)) \<and>
   (answers os \<longrightarrow> fst (fst (checkAndUpdateProjectCompletion projectId os c)) = None)"
  using check_result_no_conn_loss [of os projectId c] check_no_conn_loss [of os projectId c]
  by (auto simp: check_answers updateProjectQuery_def)

text \<open>
  Project 1 of \<open>finished_db\<close> is complete; with a member still working it is not, nor
  is it with its owner alone.
\<close>

theorem checkAndUpdateProjectCompletion_iff_witness:
  "no_conn_loss [] \<and> answers [] \<and>
   contributors 1 (autocommit finished_db) \<noteq> [] \<and>
   fst (checkAndUpdateProjectCompletion 1 [] (autocommit finished_db)) = (None, True) \<and>
   map uh_status (t_user_history (tables (snd (snd (checkAndUpdateProjectCompletion 1 []
     (autocommit finished_db)))))) = [''Complete''] \<and>
   fst (checkAndUpdateProjectCompletion 1 [] (autocommit unfinished_db)) = (None, False) \<and>
   contributors 1 (autocommit owner_only_db) = [] \<and>
   fst (checkAndUpdateProjectCompletion 1 [] (autocommit owner_only_db)) = (None, False)"
  using checkAndUpdateProjectCompletion_iff [of "[]" 1 "autocommit finished_db"]
    checkAndUpdateProjectCompletion_iff [of "[]" 1 "autocommit unfinished_db"]
    checkAndUpdateProjectCompletion_iff [of "[]" 1 "autocommit owner_only_db"]
  by (simp add: no_conn_loss_def answers_def contributors_def getMembersQuery_def
      prod_eq_iff owner_only_db_def example_defs)

text \<open>
  C10. When the evaluator reports not complete (no contributing membership, one that is
  not at 'Stage Complete', or a failed query), it has written nothing: the connection is
  the one it was given, or the replacement made when the connection was lost. While the
  connection holds, the state is untouched when it reports not complete, and differs from
  the state before only in the status of the instance's row, now 'Complete', when it
  reports complete.
\<close>

theorem checkAndUpdateProjectCompletion_frame:
  "(no_conn_loss os \<longrightarrow>
      snd (snd (checkAndUpdateProjectCompletion projectId os c)) =
        (if snd (fst (checkAndUpdateProjectCompletion projectId os c))
         then c\<lparr>tables := (tables c)\<lparr>t_user_history :=
                  map (\<lambda>h. if uh_id h = projectId then h\<lparr>uh_status := ''Complete''\<rparr> else h)
                    (t_user_history (tables c))\<rparr>\<rparr>
         else c)) \<and>
   (\<not> snd (fst (checkAndUpdateProjectCompletion projectId os c)) \<longrightarrow>
      reconnected c (snd (snd (checkAndUpdateProjectCompletion projectId os c))))"
  using check_no_conn_loss [of os projectId c] check_no_write [of projectId os c]
  by (simp add: updateProjectQuery_def)

text \<open>
  The members are read, one is still working: nothing is written, whatever the next
  answer would have been.
\<close>

theorem checkAndUpdateProjectCompletion_frame_witness:
  "no_conn_loss [Succeeds, Fails] \<and>
   \<not> snd (fst (checkAndUpdateProjectCompletion 1 [Succeeds, Fails] (autocommit unfinished_db))) \<and>
   snd (snd (checkAndUpdateProjectCompletion 1 [Succeeds, Fails] (autocommit unfinished_db))) =
     autocommit unfinished_db"
  using checkAndUpdateProjectCompletion_frame [of "[Succeeds, Fails]" 1 "autocommit unfinished_db"]
  by (simp add: no_conn_loss_def checkAndUpdateProjectCompletion_def select_def
      getMembersQuery_def autocommit_def unfinished_db_def finished_db_def empty_db_def
      member_row_def design_row_def)

text \<open>Not complete while a contributing membership is not at 'Stage Complete'.\<close>

lemma check_pending_member:
  assumes m: "m \<in> set (t_project_members (tables c))" "pm_project_id m = projectId"
      "pm_role m \<noteq> ''project_owner''" "pm_progress_status m \<noteq> Some ''Stage Complete''"
    and os: "no_conn_loss os"
  shows "\<not> snd (fst (checkAndUpdateProjectCompletion projectId os c))"
proof -
  from m have "m \<in> set (getMembersQuery projectId (tables c))"
    by (simp add: getMembersQuery_def)
  with m(4) have "\<not> list_all (\<lambda>member. pm_progress_status member = Some ''Stage Complete'')
      (getMembersQuery projectId (tables c))"
    by (auto simp: list_all_iff)
  moreover from \<open>m \<in> set (getMembersQuery projectId (tables c))\<close>
  have "getMembersQuery projectId (tables c) \<noteq> []" by auto
  ultimately show ?thesis
    using queryDatabase_no_conn_loss [OF os, of "select (getMembersQuery projectId)" c]
    unfolding checkAndUpdateProjectCompletion_def Let_def
    by (elim disjE) simp_all
qed

lemma reconnected_autocommit:
  "snapshot c = None \<Longrightarrow> reconnected c c1 \<Longrightarrow> tables c1 = tables c"
  by (auto simp: reconnected_def createConnection_def)

lemma check_pending_member_autocommit:
  assumes m: "m \<in> set (t_project_members (tables c))" "pm_project_id m = projectId"
      "pm_role m \<noteq> ''project_owner''" "pm_progress_status m \<noteq> Some ''Stage Complete''"
    and s: "snapshot c = None"
  shows "\<not> snd (fst (checkAndUpdateProjectCompletion projectId os c))"
proof -
  obtain os1 c1 where r1: "reconnected c c1"
    and q1: "queryDatabase (select (getMembersQuery projectId)) os c = (Inl DbError, os1, c1) \<or>
       queryDatabase (select (getMembersQuery projectId)) os c =
         (Inr (getMembersQuery projectId (tables c1)), os1, c1)"
    using queryDatabase_cases [of c "select (getMembersQuery projectId)" os] by auto
  from m reconnected_autocommit [OF s r1]
  have "m \<in> set (getMembersQuery projectId (tables c1))"
    by (simp add: getMembersQuery_def)
  with m(4) have "\<not> list_all (\<lambda>member. pm_progress_status member = Some ''Stage Complete'')
      (getMembersQuery projectId (tables c1))"
    by (auto simp: list_all_iff)
  moreover from \<open>m \<in> set (getMembersQuery projectId (tables c1))\<close>
  have "getMembersQuery projectId (tables c1) \<noteq> []" by auto
  ultimately show ?thesis
    using q1 unfolding checkAndUpdateProjectCompletion_def Let_def
    by (elim disjE) simp_all
qed

section \<open>Emission accrual\<close>

lemma fetch_usage_answers:
  "answers os \<Longrightarrow> fetch_usage req_query_model t name os = (usage_endpoint req_query_model t name, tl os)"
  by (cases os) (auto simp: answers_def)

lemma calculate_emissions_answers:
  assumes a: "answers os"
    and u: "deviceIdQuery userId (tables c) = u # us"
    and dev: "u_current_device_id u = Some currentDeviceId" "currentDeviceId \<noteq> 0"
    and dv: "userQuery currentDeviceId (tables c) = dv # dvs"
    and w: "usage_endpoint req_query_model (t_cpus (tables c)) (ud_cpu dv) = Some cpu"
      "usage_endpoint req_query_model (t_gpus (tables c)) (ud_gpu dv) = Some gpu"
      "usage_endpoint req_query_model (t_rams (tables c)) (ud_ram dv) = Some ram"
    and f: "getCarbonFactor (u_region u) = Some carbonFactor"
    and e: "js_mul (js_mul (js_div (js_add (js_add (js_add cpu gpu) ram) (to_double (ud_psu dv)))
                               (Num 3600)) (to_double sessionDuration)) (to_double carbonFactor) =
            Num delta"
  shows "calculate_emissions req_query_model sessionDuration projectId userId os c =
     (Ok delta, tl (tl (tl (tl (tl (tl os))))),
      c\<lparr>tables := updateProjectQuery_emissions delta projectId userId (tables c)\<rparr>)"
  using answers_tls [OF a] a u dev dv w f e
  by (simp add: calculate_emissions_def queryDatabase_answers fetch_usage_answers execute_def
      Let_def)

lemma calculate_emissionsM_answers:
  assumes a: "answers os"
    and u: "deviceIdQuery userId (tables c) = u # us"
    and dev: "u_current_device_id u = Some currentDeviceId" "currentDeviceId \<noteq> 0"
    and dv: "userQuery currentDeviceId (tables c) = dv # dvs"
    and w: "usage_endpoint req_query_model (t_cpusm (tables c)) (ud_cpu dv) = Some cpu"
      "usage_endpoint req_query_model (t_gpusm (tables c)) (ud_gpu dv) = Some gpu"
      "usage_endpoint req_query_model (t_rams (tables c)) (ud_ram dv) = Some ram"
    and f: "getCarbonFactor (u_region u) = Some carbonFactor"
    and s: "to_double sessionDuration = Num duration"
    and e: "js_mul (js_div (js_mul (js_add (js_add cpu gpu) ram) (to_double sessionDuration))
                      (Num 3600))
              (to_double carbonFactor) = Num delta"
  shows "calculate_emissionsM req_query_model sessionDuration projectId userId os c =
     (Ok delta, tl (tl (tl (tl (tl (tl os))))),
      c\<lparr>tables := updateQuery_emissionsM duration delta projectId userId (tables c)\<rparr>)"
  using answers_tls [OF a] a u dev dv w f s e
  by (simp add: calculate_emissionsM_def queryDatabase_answers fetch_usage_answers execute_def
      Let_def)

lemma getCarbonFactor_listed:
  "region \<notin> Some ` set objectPrototypeKeys \<Longrightarrow>
   getCarbonFactor region = Some (if region = Some ''Philippines'' then 0.5246 else 0.412)"
  by (auto simp: getCarbonFactor_def split: option.splits)

text \<open>
  A model name that the endpoint does not find under the text it receives ends the call
  with 500.
\<close>

lemma calculate_emissions_unknown_model:
  assumes a: "answers os"
    and u: "deviceIdQuery userId (tables c) = u # us"
    and dev: "u_current_device_id u = Some currentDeviceId" "currentDeviceId \<noteq> 0"
    and dv: "userQuery currentDeviceId (tables c) = dv # dvs"
    and w: "usage_endpoint req_query_model (t_cpus (tables c)) (ud_cpu dv) = None"
  shows "fst (calculate_emissions req_query_model sessionDuration projectId userId os c) =
     Err 500 ''Error fetching wattage data''"
  using answers_tls [OF a] a u dev dv w
  by (simp add: calculate_emissions_def queryDatabase_answers fetch_usage_answers
      split: option.splits)

lemma calculate_emissionsM_unknown_model:
  assumes a: "answers os"
    and u: "deviceIdQuery userId (tables c) = u # us"
    and dev: "u_current_device_id u = Some currentDeviceId" "currentDeviceId \<noteq> 0"
    and dv: "userQuery currentDeviceId (tables c) = dv # dvs"
    and w: "usage_endpoint req_query_model (t_cpusm (tables c)) (ud_cpu dv) = None"
  shows "fst (calculate_emissionsM req_query_model sessionDuration projectId userId os c) =
     Err 500 ''Error fetching wattage data from server''"
  using answers_tls [OF a] a u dev dv w
  by (simp add: calculate_emissionsM_def queryDatabase_answers fetch_usage_answers
      split: option.splits)

text \<open>
  So for the CPU model 'cpu+A', although the table has its watts: the endpoint looks for
  'cpu A'.
\<close>

lemma plus_in_model_name:
  "map_of (t_cpus plus_db) ''cpu+A'' = Some 100 \<and>
   plus_as_space ''cpu+A'' = Some ''cpu A'' \<and>
   fst (calculate_emissions plus_as_space 3600 1 1 [] (autocommit plus_db)) =
     Err 500 ''Error fetching wattage data''"
  by (intro conjI; code_simp)

text \<open>250 W for 3600 s at the factor 0.412, in the order of either endpoint.\<close>

lemma desktop_scenario:
  "js_mul (js_mul (js_div (Num 250) (Num 3600)) (to_double 3600)) (to_double 0.412) = Num 103"
  by code_simp

lemma mobile_scenario:
  "js_mul (js_div (js_mul (Num 250) (to_double 3600)) (Num 3600)) (to_double 0.412) = Num 103"
  by code_simp

text \<open>
  The numbers that the literals 0.412, 0.5246 and 3600 denote.
\<close>

lemma to_double_literals:
  "to_double 0.412 = Num (7421932185906577 / 18014398509481984)"
  "to_double 0.5246 = Num (1181294182259281 / 2251799813685248)"
  "to_double 3600 = Num 3600"
  by code_simp+

text \<open>
  C6 fails in several ways. (1) For a mobile device or laptop the endpoint reads the PSU
  watts of the device and leaves them out of the sum: with 100 + 40 + 10 W for CPU, GPU and
  RAM and a PSU of 100 W, 3600 s and an unlisted region, the claim's formula gives 103 and
  the endpoint 61.8. (2) A region named like a property of \<open>Object.prototype\<close> is not in
  the table, yet does not get the factor 0.412. (3) The mobile endpoint multiplies by the
  duration before it divides by 3600: for 150 W and 5 s the claim's order of operations
  gives 0.08583333333333332 and the endpoint 0.08583333333333333. (4) The delta is the
  result of floating-point operations and not the exact value of the formula: for the
  desktop of 250 W and 5 s the exact value is 103/720, which is not the endpoint's answer.
  (5) The delta of member 3's laptop session is answered and not added to carbon_emit.
\<close>

theorem mobile_accrual_counterexample:
  "usage_endpoint Some (t_cpusm emission_db) ''cpuA'' = Some (Num 100) \<and>
   usage_endpoint Some (t_gpusm emission_db) ''gpuA'' = Some (Num 40) \<and>
   usage_endpoint Some (t_rams emission_db) ''ramA'' = Some (Num 10) \<and>
   map ud_psu (userQuery 1 emission_db) = [100] \<and>
   js_mul (js_mul (js_div (js_add (js_add (js_add (Num 100) (Num 40)) (Num 10)) (to_double 100))
                     (Num 3600)) (to_double 3600)) (to_double 0.412) = Num 103 \<and>
   fst (calculate_emissionsM Some 3600 1 1 [] (autocommit emission_db)) =
     Ok (4348788390179635 / 70368744177664) \<and>
   getCarbonFactor (Some ''constructor'') = None \<and>
   js_mul (js_mul (js_div (js_add (js_add (Num 100) (Num 40)) (Num 10)) (Num 3600))
             (to_double 5))
     (to_double 0.412) = Num (773117936031935 / 9007199254740992) \<and>
   fst (calculate_emissionsM Some 5 1 1 [] (autocommit emission_db)) =
     Ok (6184943488255481 / 72057594037927936) \<and>
   (773117936031935 / 9007199254740992 :: real) \<noteq> 6184943488255481 / 72057594037927936 \<and>
   fst (calculate_emissions Some 5 1 1 [] (autocommit emission_db)) =
     Ok (2577059786773117 / 18014398509481984) \<and>
   ((100 + 40 + 10 + 100) / 3600 * 5) * 0.412 = (103 / 720 :: real) \<and>
   (103 / 720 :: real) \<noteq> 2577059786773117 / 18014398509481984 \<and>
   is_project_member 1 3 emission_db \<and>
   fst (calculate_emissionsM Some 3600 1 3 [] (autocommit emission_db)) = Ok 103 \<and>
   map uh_carbon_emit (t_user_history (tables (snd (snd
     (calculate_emissionsM Some 3600 1 3 [] (autocommit emission_db)))))) = [0]"
  by (intro conjI; code_simp)

text \<open>
  C6, amended. When the store answers, the caller has a current device, the wattages of
  its parts are found and the region is not named like a property of
  \<open>Object.prototype\<close>: the desktop endpoint answers with
  ((CPU + GPU + RAM + PSU) / 3600 * duration) * factor and the mobile endpoint with
  (((CPU + GPU + RAM) * duration) / 3600) * factor, each operation a floating-point
  operation, whenever that is a finite number. The factor is 0.5246 for the Philippines
  and 0.412 for Singapore and for every other region. The desktop endpoint adds the delta
  to carbon_emit of the instance's row if the caller owns it or is a member; the mobile
  endpoint adds it (and the duration to session_duration) if the caller owns the row.
  With 250 W counted, 3600 s and the factor 0.412 the answer is exactly 103.
\<close>

theorem accrual_formula:
  assumes "answers os"
    and "deviceIdQuery userId (tables c) = u # us"
    and "u_current_device_id u = Some currentDeviceId" and "currentDeviceId \<noteq> 0"
    and "userQuery currentDeviceId (tables c) = dv # dvs"
    and "usage_endpoint req_query_model (t_rams (tables c)) (ud_ram dv) = Some ram"
    and "u_region u \<notin> Some ` set objectPrototypeKeys"
  shows
    "(usage_endpoint req_query_model (t_cpus (tables c)) (ud_cpu dv) = Some cpu \<and>
      usage_endpoint req_query_model (t_gpus (tables c)) (ud_gpu dv) = Some gpu \<longrightarrow>
        (js_mul (js_mul (js_div (js_add (js_add (js_add cpu gpu) ram) (to_double (ud_psu dv)))
                           (Num 3600)) (to_double sessionDuration))
           (to_double (if u_region u = Some ''Philippines'' then 0.5246 else 0.412)) =
           Num delta \<longrightarrow>
         fst (calculate_emissions req_query_model sessionDuration projectId userId os c) =
           Ok delta \<and>
         t_user_history (tables (snd (snd
             (calculate_emissions req_query_model sessionDuration projectId userId os c)))) =
           map (\<lambda>h. if uh_id h = projectId \<and>
                       (uh_user_id h = userId \<or> is_project_member projectId userId (tables c))
                    then h\<lparr>uh_carbon_emit := uh_carbon_emit h + delta\<rparr>
                    else h) (t_user_history (tables c))) \<and>
        (js_add (js_add (js_add cpu gpu) ram) (to_double (ud_psu dv)) = Num 250 \<and>
         sessionDuration = 3600 \<and> u_region u \<noteq> Some ''Philippines'' \<longrightarrow>
           fst (calculate_emissions req_query_model sessionDuration projectId userId os c) =
             Ok 103)) \<and>
     (usage_endpoint req_query_model (t_cpusm (tables c)) (ud_cpu dv) = Some cpuM \<and>
      usage_endpoint req_query_model (t_gpusm (tables c)) (ud_gpu dv) = Some gpuM \<longrightarrow>
        (to_double sessionDuration = Num duration \<and>
         js_mul (js_div (js_mul (js_add (js_add cpuM gpuM) ram) (to_double sessionDuration))
                   (Num 3600))
           (to_double (if u_region u = Some ''Philippines'' then 0.5246 else 0.412)) =
           Num deltaM \<longrightarrow>
         fst (calculate_emissionsM req_query_model sessionDuration projectId userId os c) =
           Ok deltaM \<and>
         t_user_history (tables (snd (snd
             (calculate_emissionsM req_query_model sessionDuration projectId userId os c)))) =
           map (\<lambda>h. if uh_id h = projectId \<and> uh_user_id h = userId
                    then h\<lparr>uh_session_duration := uh_session_duration h + duration,
                           uh_carbon_emit := uh_carbon_emit h + deltaM\<rparr>
                    else h) (t_user_history (tables c))) \<and>
        (js_add (js_add cpuM gpuM) ram = Num 250 \<and> sessionDuration = 3600 \<and>
         u_region u \<noteq> Some ''Philippines'' \<longrightarrow>
           fst (calculate_emissionsM req_query_model sessionDuration projectId userId os c) =
             Ok 103))"
proof -
  note f = getCarbonFactor_listed [OF assms(7)]
  have desktop: "fst (calculate_emissions req_query_model sessionDuration projectId userId os c) =
           Ok d \<and>
         t_user_history (tables (snd (snd
             (calculate_emissions req_query_model sessionDuration projectId userId os c)))) =
           map (\<lambda>h. if uh_id h = projectId \<and>
                       (uh_user_id h = userId \<or> is_project_member projectId userId (tables c))
                    then h\<lparr>uh_carbon_emit := uh_carbon_emit h + d\<rparr>
                    else h) (t_user_history (tables c))"
    if "usage_endpoint req_query_model (t_cpus (tables c)) (ud_cpu dv) = Some cpu"
      and "usage_endpoint req_query_model (t_gpus (tables c)) (ud_gpu dv) = Some gpu"
      and "js_mul (js_mul (js_div (js_add (js_add (js_add cpu gpu) ram) (to_double (ud_psu dv)))
                           (Num 3600)) (to_double sessionDuration))
           (to_double (if u_region u = Some ''Philippines'' then 0.5246 else 0.412)) = Num d"
    for d
    unfolding calculate_emissions_answers [OF assms(1-5) that(1,2) assms(6) f that(3)]
    by (auto simp: updateProjectQuery_emissions_def)
  have mobile: "fst (calculate_emissionsM req_query_model sessionDuration projectId userId os c) =
           Ok d \<and>
         t_user_history (tables (snd (snd
             (calculate_emissionsM req_query_model sessionDuration projectId userId os c)))) =
           map (\<lambda>h. if uh_id h = projectId \<and> uh_user_id h = userId
                    then h\<lparr>uh_session_duration := uh_session_duration h + s,
                           uh_carbon_emit := uh_carbon_emit h + d\<rparr>
                    else h) (t_user_history (tables c))"
    if "usage_endpoint req_query_model (t_cpusm (tables c)) (ud_cpu dv) = Some cpuM"
      and "usage_endpoint req_query_model (t_gpusm (tables c)) (ud_gpu dv) = Some gpuM"
      and "to_double sessionDuration = Num s"
      and "js_mul (js_div (js_mul (js_add (js_add cpuM gpuM) ram) (to_double sessionDuration))
                     (Num 3600))
           (to_double (if u_region u = Some ''Philippines'' then 0.5246 else 0.412)) = Num d"
    for d s
    unfolding calculate_emissionsM_answers [OF assms(1-5) that(1,2) assms(6) f that(3,4)]
    by (simp add: updateQuery_emissionsM_def)
  have scenario: "js_mul (js_mul (js_div (js_add (js_add (js_add cpu gpu) ram) (to_double (ud_psu dv)))
                           (Num 3600)) (to_double sessionDuration))
           (to_double (if u_region u = Some ''Philippines'' then 0.5246 else 0.412)) = Num 103"
    if "js_add (js_add (js_add cpu gpu) ram) (to_double (ud_psu dv)) = Num 250"
      and "sessionDuration = 3600" and "u_region u \<noteq> Some ''Philippines''"
    unfolding that(1,2) if_not_P [OF that(3)] by (rule desktop_scenario)
  have scenarioM: "js_mul (js_div (js_mul (js_add (js_add cpuM gpuM) ram) (to_double sessionDuration))
                     (Num 3600))
           (to_double (if u_region u = Some ''Philippines'' then 0.5246 else 0.412)) = Num 103"
    if "js_add (js_add cpuM gpuM) ram = Num 250"
      and "sessionDuration = 3600" and "u_region u \<noteq> Some ''Philippines''"
    unfolding that(1,2) if_not_P [OF that(3)] by (rule mobile_scenario)
  have d3600: "to_double sessionDuration = Num 3600" if "sessionDuration = 3600"
    unfolding that by (rule to_double_literals)
  show ?thesis
    using desktop mobile scenario scenarioM d3600 by blast
qed

text \<open>
  The users of \<open>emission_db\<close>, with model names of letters and digits, which reach the
  endpoints as they are: user 5 in Singapore and user 1 on 'Mars' for an hour at the
  desktop of 100 + 40 + 10 + 100 W, user 2 in the Philippines and user 3 without a region
  for an hour at the laptop of 200 + 40 + 10 W, and the owner, user 1, for 6000 s at the
  mobile endpoint with 100 + 40 + 10 W.
\<close>

theorem accrual_formula_witness:
  "answers [] \<and>
   map u_region (deviceIdQuery 5 (tables (autocommit emission_db))) = [Some ''Singapore''] \<and>
   map u_region (deviceIdQuery 1 (tables (autocommit emission_db))) = [Some ''Mars''] \<and>
   map u_region (deviceIdQuery 2 (tables (autocommit emission_db))) = [Some ''Philippines''] \<and>
   map u_region (deviceIdQuery 3 (tables (autocommit emission_db))) = [None] \<and>
   fst (calculate_emissions Some 3600 1 5 [] (autocommit emission_db)) = Ok 103 \<and>
   fst (calculate_emissions Some 3600 1 1 [] (autocommit emission_db)) = Ok 103 \<and>
   map uh_carbon_emit (t_user_history (tables (snd (snd
     (calculate_emissions Some 3600 1 1 [] (autocommit emission_db)))))) = [103] \<and>
   fst (calculate_emissionsM Some 3600 1 2 [] (autocommit emission_db)) =
     Ok (1153607599862579 / 8796093022208) \<and>
   fst (calculate_emissionsM Some 3600 1 3 [] (autocommit emission_db)) = Ok 103 \<and>
   fst (calculate_emissionsM Some 6000 1 1 [] (autocommit emission_db)) = Ok 103 \<and>
   map (\<lambda>h. (uh_carbon_emit h, uh_session_duration h)) (t_user_history (tables (snd (snd
     (calculate_emissionsM Some 6000 1 1 [] (autocommit emission_db)))))) = [(103, 6000)]"
proof -
  let ?c = "autocommit emission_db"
  let ?u1 = "\<lparr>u_id = 1, u_current_device_id = Some 1, u_region = Some ''Mars''\<rparr>"
  let ?u2 = "\<lparr>u_id = 2, u_current_device_id = Some 2, u_region = Some ''Philippines''\<rparr>"
  let ?u3 = "\<lparr>u_id = 3, u_current_device_id = Some 2, u_region = None\<rparr>"
  let ?u5 = "\<lparr>u_id = 5, u_current_device_id = Some 1, u_region = Some ''Singapore''\<rparr>"
  let ?d1 = "\<lparr>ud_id = 1, ud_cpu = ''cpuA'', ud_gpu = ''gpuA'', ud_ram = ''ramA'', ud_psu = 100\<rparr>"
  let ?d2 = "\<lparr>ud_id = 2, ud_cpu = ''cpuB'', ud_gpu = ''gpuB'', ud_ram = ''ramA'', ud_psu = 65\<rparr>"
  have a: "answers []"
    by (simp add: answers_def)
  have u: "deviceIdQuery 1 (tables ?c) = [?u1]" "deviceIdQuery 2 (tables ?c) = [?u2]"
    "deviceIdQuery 3 (tables ?c) = [?u3]" "deviceIdQuery 5 (tables ?c) = [?u5]"
    by (simp_all add: deviceIdQuery_def example_defs)
  have d: "userQuery 1 (tables ?c) = [?d1]" "userQuery 2 (tables ?c) = [?d2]"
    by (simp_all add: userQuery_def example_defs)
  have r: "usage_endpoint Some (t_rams (tables ?c)) ''ramA'' = Some (Num 10)"
    by code_simp
  have w: "usage_endpoint Some (t_cpus (tables ?c)) ''cpuA'' = Some (Num 100)"
    "usage_endpoint Some (t_gpus (tables ?c)) ''gpuA'' = Some (Num 40)"
    "usage_endpoint Some (t_cpusm (tables ?c)) ''cpuA'' = Some (Num 100)"
    "usage_endpoint Some (t_gpusm (tables ?c)) ''gpuA'' = Some (Num 40)"
    "usage_endpoint Some (t_cpusm (tables ?c)) ''cpuB'' = Some (Num 200)"
    "usage_endpoint Some (t_gpusm (tables ?c)) ''gpuB'' = Some (Num 40)"
    by code_simp+
  have k: "Some ''Mars'' \<notin> Some ` set objectPrototypeKeys"
    "Some ''Singapore'' \<notin> Some ` set objectPrototypeKeys"
    "Some ''Philippines'' \<notin> Some ` set objectPrototypeKeys"
    "None \<notin> Some ` set objectPrototypeKeys"
    by (simp_all add: objectPrototypeKeys_def)
  have e: "js_mul (js_mul (js_div (js_add (js_add (js_add (Num 100) (Num 40)) (Num 10))
                                      (to_double 100)) (Num 3600)) (to_double 3600))
             (to_double 0.412) = Num 103"
    "js_mul (js_div (js_mul (js_add (js_add (Num 200) (Num 40)) (Num 10)) (to_double 3600))
               (Num 3600))
       (to_double 0.5246) = Num (1153607599862579 / 8796093022208)"
    "js_mul (js_div (js_mul (js_add (js_add (Num 200) (Num 40)) (Num 10)) (to_double 3600))
               (Num 3600))
       (to_double 0.412) = Num 103"
    "js_mul (js_div (js_mul (js_add (js_add (Num 100) (Num 40)) (Num 10)) (to_double 6000))
               (Num 3600))
       (to_double 0.412) = Num 103"
    "to_double 3600 = Num 3600" "to_double 6000 = Num 6000"
    by code_simp+
  have m: "is_project_member 1 1 (tables ?c)"
    by (simp add: is_project_member_def example_defs)
  have h: "t_user_history (tables ?c) = [design_row]"
    by (simp add: example_defs)
  note t5 = accrual_formula [where req_query_model = Some and os = "[]" and c = ?c
      and userId = 5 and u = ?u5 and us = "[]" and currentDeviceId = 1 and dv = ?d1
      and dvs = "[]" and ram = "Num 10" and cpu = "Num 100" and gpu = "Num 40"
      and sessionDuration = 3600 and delta = 103 and projectId = 1, THEN conjunct1]
  note t1 = accrual_formula [where req_query_model = Some and os = "[]" and c = ?c
      and userId = 1 and u = ?u1 and us = "[]" and currentDeviceId = 1 and dv = ?d1
      and dvs = "[]" and ram = "Num 10" and cpu = "Num 100" and gpu = "Num 40"
      and sessionDuration = 3600 and delta = 103 and projectId = 1, THEN conjunct1]
  note t1m = accrual_formula [where req_query_model = Some and os = "[]" and c = ?c
      and userId = 1 and u = ?u1 and us = "[]" and currentDeviceId = 1 and dv = ?d1
      and dvs = "[]" and ram = "Num 10" and cpuM = "Num 100" and gpuM = "Num 40"
      and sessionDuration = 6000 and duration = 6000 and deltaM = 103 and projectId = 1,
      THEN conjunct2]
  note t2 = accrual_formula [where req_query_model = Some and os = "[]" and c = ?c
      and userId = 2 and u = ?u2 and us = "[]" and currentDeviceId = 2 and dv = ?d2
      and dvs = "[]" and ram = "Num 10" and cpuM = "Num 200" and gpuM = "Num 40"
      and sessionDuration = 3600 and duration = 3600
      and deltaM = "1153607599862579 / 8796093022208" and projectId = 1, THEN conjunct2]
  note t3 = accrual_formula [where req_query_model = Some and os = "[]" and c = ?c
      and userId = 3 and u = ?u3 and us = "[]" and currentDeviceId = 2 and dv = ?d2
      and dvs = "[]" and ram = "Num 10" and cpuM = "Num 200" and gpuM = "Num 40"
      and sessionDuration = 3600 and duration = 3600 and deltaM = 103 and projectId = 1,
      THEN conjunct2]
  have "fst (calculate_emissions Some 3600 1 5 [] ?c) = Ok 103"
    using t5 a u d r w k e by simp
  moreover have "fst (calculate_emissions Some 3600 1 1 [] ?c) = Ok 103"
    and "map uh_carbon_emit (t_user_history (tables (snd (snd
           (calculate_emissions Some 3600 1 1 [] ?c))))) = [103]"
    using t1 a u d r w k e m h by (simp_all add: design_row_def)
  moreover have "fst (calculate_emissionsM Some 3600 1 2 [] ?c) =
      Ok (1153607599862579 / 8796093022208)"
    using t2 a u d r w k e by simp
  moreover have "fst (calculate_emissionsM Some 3600 1 3 [] ?c) = Ok 103"
    using t3 a u d r w k e by simp
  moreover have "fst (calculate_emissionsM Some 6000 1 1 [] ?c) = Ok 103"
    and "map (\<lambda>h. (uh_carbon_emit h, uh_session_duration h)) (t_user_history (tables (snd (snd
           (calculate_emissionsM Some 6000 1 1 [] ?c))))) = [(103, 6000)]"
    using t1m a u d r w k e m h by (simp_all add: design_row_def)
  ultimately show ?thesis
    using a u by simp
qed

text \<open>
  C8 fails for a member at the mobile endpoint, whose UPDATE asks for the owner (line
  1096) where that of the desktop endpoint also takes a member (line 975). Member 3 of
  project 1 sends two laptop sessions of 250 W and 3600 s: each call answers with the
  delta 103, and carbon_emit of the instance is 0 before and after. On the same row,
  with the same caller and delta, the UPDATE of the desktop endpoint adds the delta.
\<close>

theorem mobile_member_accrual_is_lost:
  "is_project_member 1 3 emission_db \<and>
   map uh_user_id (t_user_history emission_db) = [1] \<and>
   map uh_carbon_emit (t_user_history emission_db) = [0] \<and>
   fst (calculate_emissionsM Some 3600 1 3 [] (autocommit emission_db)) = Ok 103 \<and>
   fst (calculate_emissionsM Some 3600 1 3 []
          (snd (snd (calculate_emissionsM Some 3600 1 3 [] (autocommit emission_db))))) =
     Ok 103 \<and>
   map uh_carbon_emit (t_user_history (tables (snd (snd
     (calculate_emissionsM Some 3600 1 3 []
        (snd (snd (calculate_emissionsM Some 3600 1 3 []
                     (autocommit emission_db))))))))) = [0] \<and>
   map uh_carbon_emit (t_user_history (updateQuery_emissionsM 3600 103 1 3 emission_db)) = [0] \<and>
   map uh_carbon_emit (t_user_history (updateProjectQuery_emissions 103 1 3 emission_db)) =
     [103]"
  by (intro conjI; code_simp)

section \<open>Project requests\<close>

lemma getRequestQuery_updated:
  "getRequestQuery requestId (snd (updateQuery_request status reviewerId review_notes requestId d)) =
     map (\<lambda>r. r\<lparr>pr_status := status, pr_reviewer_id := Some reviewerId,
                 pr_review_notes := review_notes\<rparr>) (getRequestQuery requestId d)"
  by (simp add: getRequestQuery_def updateQuery_request_def filter_map o_def)

lemma affectedRows_request:
  "fst (updateQuery_request status reviewerId review_notes requestId d) =
     length (getRequestQuery requestId d)"
  by (simp add: getRequestQuery_def updateQuery_request_def)

lemma map_fresh:
  "fresh_ids d \<Longrightarrow>
   map (\<lambda>h. if uh_id h = next_history_id d then f h else h) (t_user_history d) = t_user_history d"
  by (rule map_idI) (auto simp: fresh_ids_def list_all_iff)

lemma approve_answers:
  assumes a: "answers os" and r: "getRequestQuery requestId (tables c) = request # rest"
    and f: "fresh_ids (tables c)"
  shows "approve_project_request requestId reviewerId review_notes os c =
     (Ok (next_history_id (tables c)), tl (tl (tl (tl (tl (tl (tl (tl os))))))),
      \<lparr>tables = approved_tables request requestId reviewerId review_notes (tables c),
       snapshot = None\<rparr>)"
  using answers_tls [OF a] a r map_fresh [OF f]
  apply (simp add: approve_project_request_def beginTransaction_answers queryDatabase_answers
      commit_answers affectedRows_request getRequestQuery_updated)
  apply (simp add: createProjectQuery_def updateProjectIdQuery_def addOwnerQuery_def
      addLeaderQuery_def execute_def approved_tables_def updateQuery_request_def Let_def)
  done

lemma approve_missing:
  assumes a: "answers os" and r: "getRequestQuery requestId (tables c) = []"
  shows "approve_project_request requestId reviewerId review_notes os c =
     (Err 404 ''Request not found'', tl (tl os), \<lparr>tables = tables c, snapshot = None\<rparr>)"
  using answers_tls [OF a] a r
  by (simp add: approve_project_request_def beginTransaction_answers queryDatabase_answers
      affectedRows_request rollback_def)

lemma reject_answers:
  assumes a: "answers os"
  shows "reject_project_request requestId reviewerId review_notes os c =
     (if getRequestQuery requestId (tables c) = [] then Err 404 ''Request not found''
      else Ok ''Project request rejected successfully'',
      tl os,
      c\<lparr>tables := (tables c)\<lparr>t_project_requests :=
           map (\<lambda>r. if pr_id r = requestId
                    then r\<lparr>pr_status := ''rejected'', pr_reviewer_id := Some reviewerId,
                           pr_review_notes := review_notes\<rparr>
                    else r) (t_project_requests (tables c))\<rparr>\<rparr>)"
  using a
  by (simp add: reject_project_request_def queryDatabase_answers affectedRows_request)
     (simp add: updateQuery_request_def)

lemma no_request_unchanged:
  assumes "getRequestQuery requestId d = []"
  shows "map (\<lambda>r. if pr_id r = requestId then f r else r) (t_project_requests d) =
         t_project_requests d"
proof (rule map_idI)
  fix r assume "r \<in> set (t_project_requests d)"
  with assms have "pr_id r \<noteq> requestId"
    by (auto simp: getRequestQuery_def filter_empty_conv)
  then show "(if pr_id r = requestId then f r else r) = r" by simp
qed

lemma approved_once_eq:
  "approved_once =
     \<lparr>tables = approved_tables request_row 1 9 None pending_db, snapshot = None\<rparr>"
  unfolding approved_once_def
  by (subst approve_answers [where request = request_row and rest = "[]"])
     (simp_all add: answers_def autocommit_def pending_db_def empty_db_def getRequestQuery_def
       request_row_def fresh_ids_def)

text \<open>
  C7 fails: approving the approved request 1 again answers 200 with a new project id,
  and leaves a second user_history row and two more memberships.
\<close>

theorem reapprove_counterexample:
  "map pr_status (t_project_requests (tables approved_once)) = [''approved''] \<and>
   fst (approve_project_request 1 9 None [] approved_once) = Ok 2 \<and>
   map uh_id (t_user_history (tables approved_once)) = [1] \<and>
   map uh_id (t_user_history (tables approved_twice)) = [1, 2] \<and>
   length (t_project_members (tables approved_once)) = 2 \<and>
   length (t_project_members (tables approved_twice)) = 4"
  unfolding approved_twice_def approved_once_eq
  by (subst approve_answers [where request = "request_row\<lparr>pr_status := ''approved'',
        pr_reviewer_id := Some 9, pr_review_notes := None\<rparr>" and rest = "[]"],
      simp_all add: answers_def approved_tables_def pending_db_def empty_db_def
        getRequestQuery_def request_row_def fresh_ids_def Let_def)+

text \<open>
  C7, amended. Neither endpoint looks at the status of the request. When the store
  answers and a request with the id exists, approving it answers with the id of a new
  user_history row made from the request, with status 'In Progress', adds a project_owner
  and a project_leader membership of the requester, and sets the status of the request to
  'approved'; rejecting it sets the status to 'rejected' and changes nothing else. When no
  request has the id, both answer 404 and the tables stay as they were.
\<close>

theorem decided_request_can_be_decided_again:
  assumes "answers os" and "fresh_ids (tables c)"
  shows "(getRequestQuery requestId (tables c) = request # rest \<longrightarrow>
           fst (approve_project_request requestId reviewerId review_notes os c) =
             Ok (next_history_id (tables c)) \<and>
           tables (snd (snd (approve_project_request requestId reviewerId review_notes os c))) =
             (tables c)\<lparr>
               t_project_requests :=
                 map (\<lambda>r. if pr_id r = requestId
                          then r\<lparr>pr_status := ''approved'', pr_reviewer_id := Some reviewerId,
                                 pr_review_notes := review_notes\<rparr>
                          else r) (t_project_requests (tables c)),
               t_user_history :=
                 t_user_history (tables c) @
                 [\<lparr>uh_id = next_history_id (tables c), uh_user_id = pr_user_id request,
                   uh_organization = pr_organization request,
                   uh_project_name = pr_title request,
                   uh_project_description = pr_description request,
                   uh_stage = pr_project_stage request,
                   uh_project_id = Some (next_history_id (tables c)),
                   uh_status = ''In Progress'', uh_carbon_emit = 0, uh_session_duration = 0,
                   uh_stage_duration = pr_stage_duration request,
                   uh_stage_start_date = pr_stage_start_date request,
                   uh_stage_due_date = pr_stage_due_date request,
                   uh_project_start_date = pr_project_start_date request,
                   uh_project_due_date = pr_project_due_date request\<rparr>],
               t_project_members :=
                 t_project_members (tables c) @
                 [\<lparr>pm_project_id = next_history_id (tables c),
                   pm_user_id = pr_user_id request, pm_role = ''project_owner'',
                   pm_current_stage = Some (pr_project_stage request),
                   pm_progress_status = Some ''In Progress''\<rparr>,
                  \<lparr>pm_project_id = next_history_id (tables c),
                   pm_user_id = pr_user_id request, pm_role = ''project_leader'',
                   pm_current_stage = Some (pr_project_stage request),
                   pm_progress_status = Some ''In Progress''\<rparr>],
               next_history_id := Suc (next_history_id (tables c))\<rparr> \<and>
           reject_project_request requestId reviewerId review_notes os c =
             (Ok ''Project request rejected successfully'', tl os,
              c\<lparr>tables := (tables c)\<lparr>t_project_requests :=
                   map (\<lambda>r. if pr_id r = requestId
                            then r\<lparr>pr_status := ''rejected'',
                                   pr_reviewer_id := Some reviewerId,
                                   pr_review_notes := review_notes\<rparr>
                            else r) (t_project_requests (tables c))\<rparr>\<rparr>)) \<and>
         (getRequestQuery requestId (tables c) = [] \<longrightarrow>
           fst (approve_project_request requestId reviewerId review_notes os c) =
             Err 404 ''Request not found'' \<and>
           tables (snd (snd (approve_project_request requestId reviewerId review_notes os c))) =
             tables c \<and>
           reject_project_request requestId reviewerId review_notes os c =
             (Err 404 ''Request not found'', tl os, c))"
proof (intro conjI impI)
  assume r: "getRequestQuery requestId (tables c) = request # rest"
  show "fst (approve_project_request requestId reviewerId review_notes os c) =
             Ok (next_history_id (tables c))"
    by (simp add: approve_answers [OF assms(1) r assms(2)])
  show "tables (snd (snd (approve_project_request requestId reviewerId review_notes os c))) =
             (tables c)\<lparr>
               t_project_requests :=
                 map (\<lambda>r. if pr_id r = requestId
                          then r\<lparr>pr_status := ''approved'', pr_reviewer_id := Some reviewerId,
                                 pr_review_notes := review_notes\<rparr>
                          else r) (t_project_requests (tables c)),
               t_user_history :=
                 t_user_history (tables c) @
                 [\<lparr>uh_id = next_history_id (tables c), uh_user_id = pr_user_id request,
                   uh_organization = pr_organization request,
                   uh_project_name = pr_title request,
                   uh_project_description = pr_description request,
                   uh_stage = pr_project_stage request,
                   uh_project_id = Some (next_history_id (tables c)),
                   uh_status = ''In Progress'', uh_carbon_emit = 0, uh_session_duration = 0,
                   uh_stage_duration = pr_stage_duration request,
                   uh_stage_start_date = pr_stage_start_date request,
                   uh_stage_due_date = pr_stage_due_date request,
                   uh_project_start_date = pr_project_start_date request,
                   uh_project_due_date = pr_project_due_date request\<rparr>],
               t_project_members :=
                 t_project_members (tables c) @
                 [\<lparr>pm_project_id = next_history_id (tables c),
                   pm_user_id = pr_user_id request, pm_role = ''project_owner'',
                   pm_current_stage = Some (pr_project_stage request),
                   pm_progress_status = Some ''In Progress''\<rparr>,
                  \<lparr>pm_project_id = next_history_id (tables c),
                   pm_user_id = pr_user_id request, pm_role = ''project_leader'',
                   pm_current_stage = Some (pr_project_stage request),
                   pm_progress_status = Some ''In Progress''\<rparr>],
               next_history_id := Suc (next_history_id (tables c))\<rparr>"
    by (simp add: approve_answers [OF assms(1) r assms(2)] approved_tables_def Let_def)
  show "reject_project_request requestId reviewerId review_notes os c =
             (Ok ''Project request rejected successfully'', tl os,
              c\<lparr>tables := (tables c)\<lparr>t_project_requests :=
                   map (\<lambda>r. if pr_id r = requestId
                            then r\<lparr>pr_status := ''rejected'',
                                   pr_reviewer_id := Some reviewerId,
                                   pr_review_notes := review_notes\<rparr>
                            else r) (t_project_requests (tables c))\<rparr>\<rparr>)"
    by (simp add: reject_answers [OF assms(1)] r)
next
  assume r: "getRequestQuery requestId (tables c) = []"
  show "fst (approve_project_request requestId reviewerId review_notes os c) =
             Err 404 ''Request not found''"
    by (simp add: approve_missing [OF assms(1) r])
  show "tables (snd (snd (approve_project_request requestId reviewerId review_notes os c))) =
             tables c"
    by (simp add: approve_missing [OF assms(1) r])
  show "reject_project_request requestId reviewerId review_notes os c =
             (Err 404 ''Request not found'', tl os, c)"
    by (simp add: reject_answers [OF assms(1)] r no_request_unchanged [OF r])
qed

text \<open>
  The approved request 1 is approved again, or rejected; no request has the id 7.
\<close>

theorem decided_request_can_be_decided_again_witness:
  "answers [] \<and> fresh_ids (tables approved_once) \<and>
   map pr_status (getRequestQuery 1 (tables approved_once)) = [''approved''] \<and>
   fst (approve_project_request 1 9 None [] approved_once) = Ok 2 \<and>
   fst (reject_project_request 1 9 None [] approved_once) =
     Ok ''Project request rejected successfully'' \<and>
   getRequestQuery 7 (tables approved_once) = [] \<and>
   fst (approve_project_request 7 9 None [] approved_once) = Err 404 ''Request not found'' \<and>
   fst (reject_project_request 7 9 None [] approved_once) = Err 404 ''Request not found''"
  unfolding approved_once_eq
  using decided_request_can_be_decided_again [where os = "[]" and requestId = 1
      and c = "\<lparr>tables = approved_tables request_row 1 9 None pending_db, snapshot = None\<rparr>"
      and request = "request_row\<lparr>pr_status := ''approved'', pr_reviewer_id := Some 9,
        pr_review_notes := None\<rparr>" and rest = "[]" and reviewerId = 9 and review_notes = None]
    decided_request_can_be_decided_again [where os = "[]" and requestId = 7
      and c = "\<lparr>tables = approved_tables request_row 1 9 None pending_db, snapshot = None\<rparr>"
      and reviewerId = 9 and review_notes = None]
  by (simp add: answers_def fresh_ids_def getRequestQuery_def approved_tables_def
      pending_db_def request_row_def empty_db_def Let_def)

text \<open>
  C2 fails on the code: approving the pending request 1 inserts the requester's
  project_owner membership with progress_status 'In Progress' (line 3907).
\<close>

theorem approved_owner_has_progress_status:
  "filter (\<lambda>m. pm_role m = ''project_owner'') (t_project_members (tables approved_once)) =
     [\<lparr>pm_project_id = 1, pm_user_id = 1, pm_role = ''project_owner'',
       pm_current_stage = Some ''Design'', pm_progress_status = Some ''In Progress''\<rparr>] \<and>
   fst (approve_project_request 1 9 None [] (autocommit pending_db)) = Ok 1"
  unfolding approved_once_eq
  by (subst approve_answers [where request = request_row and rest = "[]"])
     (simp_all add: approved_tables_def answers_def getRequestQuery_def fresh_ids_def
       pending_db_def request_row_def empty_db_def autocommit_def Let_def)

section \<open>Invitations\<close>

lemma getProjectIdQuery_updated:
  "getProjectIdQuery notificationId userId (updateQuery_respond response notificationId userId d) =
     map (\<lambda>n. n\<lparr>n_response := Some response, n_status := ''read''\<rparr>)
       (getProjectIdQuery notificationId userId d)"
  unfolding getProjectIdQuery_def updateQuery_respond_def
  by (induction "t_notifications d" arbitrary: d) (simp_all add: filter_upd_rows)

lemma respond_accepted:
  assumes a: "answers os"
    and n: "getProjectIdQuery notificationId userId (tables c) = n # rest"
  shows "respond_invitation notificationId userId ''accepted'' os c =
     (Ok ''Invitation response recorded successfully'', tl (tl (tl (tl (tl os)))),
      \<lparr>tables = responded_tables n notificationId userId (tables c), snapshot = None\<rparr>)"
  using answers_tls [OF a] a n
  by (simp add: respond_invitation_def beginTransaction_answers queryDatabase_answers
      commit_respond_def commit_answers execute_def getProjectIdQuery_updated)
     (simp add: insertMemberQuery_def updateQuery_respond_def responded_tables_def
      default_current_stage_def default_progress_status_def)

text \<open>
  C9. When the store answers and the invitation exists for the recipient, accepting it
  adds one membership with role 'member' whose current_stage and progress_status are
  left to the column defaults, null. The evaluator then reports the instance not complete,
  whatever the store answers, and it does so in every later state that still holds this
  row unchanged, while the connection holds.
\<close>

theorem accepted_invitee_blocks_completion:
  assumes "answers os"
    and "getProjectIdQuery notificationId userId (tables c) = n # rest"
  shows "fst (respond_invitation notificationId userId ''accepted'' os c) =
           Ok ''Invitation response recorded successfully'' \<and>
         t_project_members (tables (snd (snd
           (respond_invitation notificationId userId ''accepted'' os c)))) =
           t_project_members (tables c) @
           [\<lparr>pm_project_id = n_project_id n, pm_user_id = userId, pm_role = ''member'',
             pm_current_stage = None, pm_progress_status = None\<rparr>] \<and>
         (\<forall>os'. \<not> snd (fst (checkAndUpdateProjectCompletion (n_project_id n) os'
            (snd (snd (respond_invitation notificationId userId ''accepted'' os c)))))) \<and>
         (\<forall>os' c'. no_conn_loss os' \<and>
            \<lparr>pm_project_id = n_project_id n, pm_user_id = userId, pm_role = ''member'',
              pm_current_stage = None, pm_progress_status = None\<rparr>
              \<in> set (t_project_members (tables c')) \<longrightarrow>
            \<not> snd (fst (checkAndUpdateProjectCompletion (n_project_id n) os' c')))"
proof -
  let ?row = "\<lparr>pm_project_id = n_project_id n, pm_user_id = userId, pm_role = ''member'',
             pm_current_stage = None, pm_progress_status = None\<rparr>"
  let ?c = "\<lparr>tables = responded_tables n notificationId userId (tables c), snapshot = None\<rparr>"
  have r: "respond_invitation notificationId userId ''accepted'' os c =
     (Ok ''Invitation response recorded successfully'', tl (tl (tl (tl (tl os)))), ?c)"
    by (rule respond_accepted [OF assms])
  have "?row \<in> set (t_project_members (tables ?c))"
    by (simp add: responded_tables_def)
  then have 1: "\<not> snd (fst (checkAndUpdateProjectCompletion (n_project_id n) os' ?c))" for os'
    by (rule check_pending_member_autocommit) simp_all
  have 2: "\<not> snd (fst (checkAndUpdateProjectCompletion (n_project_id n) os' c'))"
    if "no_conn_loss os'" "?row \<in> set (t_project_members (tables c'))" for os' c'
    using that(2) _ _ _ that(1) by (rule check_pending_member) simp_all
  show ?thesis
    using 1 2 by (simp add: r responded_tables_def)
qed

lemma accepted_once_eq:
  "accepted_once =
     autocommit (invited_db\<lparr>
       t_notifications := [invitation_row\<lparr>n_response := Some ''accepted'', n_status := ''read''\<rparr>],
       t_project_members :=
         t_project_members finished_db @
         [\<lparr>pm_project_id = 1, pm_user_id = 4, pm_role = ''member'',
           pm_current_stage = None, pm_progress_status = None\<rparr>]\<rparr>)"
  by (simp add: accepted_once_def respond_defs select_def execute_def example_defs)

text \<open>
  Project 1 of \<open>invited_db\<close> is complete before user 4 accepts, and not after, nor
  after a second acceptance.
\<close>

theorem accepted_invitee_blocks_completion_witness:
  "answers [] \<and>
   getProjectIdQuery 1 4 (tables (autocommit invited_db)) = [invitation_row] \<and>
   contributors 1 (autocommit invited_db) =
     [member_row 1 2 ''member'' (Some ''Stage Complete'')] \<and>
   snd (fst (checkAndUpdateProjectCompletion 1 [] (autocommit invited_db))) \<and>
   \<not> snd (fst (checkAndUpdateProjectCompletion 1 []
      (snd (snd (respond_invitation 1 4 ''accepted'' [] (autocommit invited_db)))))) \<and>
   no_conn_loss [Succeeds] \<and>
   \<not> snd (fst (checkAndUpdateProjectCompletion 1 [Succeeds] accepted_twice))"
proof -
  have h: "answers []"
    "getProjectIdQuery 1 4 (tables (autocommit invited_db)) = [invitation_row]"
    by (simp_all add: answers_def getProjectIdQuery_def invitation_row_def invited_db_def
        example_defs)
  have "n_project_id invitation_row = 1"
    by (simp add: invitation_row_def)
  with accepted_invitee_blocks_completion [OF h]
  have "\<not> snd (fst (checkAndUpdateProjectCompletion 1 []
      (snd (snd (respond_invitation 1 4 ''accepted'' [] (autocommit invited_db))))))"
    by simp
  moreover have "no_conn_loss [Succeeds]"
    by (simp add: no_conn_loss_def)
  moreover from this accepted_invitee_blocks_completion [OF h] \<open>n_project_id invitation_row = 1\<close>
  have "\<not> snd (fst (checkAndUpdateProjectCompletion 1 [Succeeds] accepted_twice))"
    unfolding accepted_twice_def accepted_once_eq
    by (simp add: respond_defs select_def execute_def example_defs)
  moreover have "contributors 1 (autocommit invited_db) =
     [member_row 1 2 ''member'' (Some ''Stage Complete'')]"
    by (simp add: contributors_def getMembersQuery_def invited_db_def example_defs)
  moreover have "snd (fst (checkAndUpdateProjectCompletion 1 [] (autocommit invited_db)))"
    by (simp add: checkAndUpdateProjectCompletion_def select_def execute_def
        getMembersQuery_def invited_db_def example_defs)
  ultimately show ?thesis
    using h by simp
qed

text \<open>The sibling path: POST /add_project_member refuses a second membership.\<close>

lemma add_project_member_refuses_duplicate:
  assumes "answers os" and "projectId \<noteq> 0" and "role \<noteq> []"
    and "checkMemberQuery projectId userId (tables c) \<noteq> []"
  shows "add_project_member projectId userId role os c =
           (Err 400 ''User is already a member of this project'', tl os, c)"
  using assms by (simp add: add_project_member_def queryDatabase_answers)

text \<open>
  C3 fails on the code: the endpoint inserts the membership without looking for one.
  When the store accepts both INSERTs, the second 'accepted' to invitation 1 answers 200
  as the first did and leaves two memberships of user 4 in project 1, where
  POST /add_project_member answers 400.
\<close>

theorem second_acceptance_duplicates_membership:
  "fst (respond_invitation 1 4 ''accepted'' [] (autocommit invited_db)) =
     Ok ''Invitation response recorded successfully'' \<and>
   fst (respond_invitation 1 4 ''accepted'' [] accepted_once) =
     Ok ''Invitation response recorded successfully'' \<and>
   checkMemberQuery 1 4 (tables accepted_once) =
     [\<lparr>pm_project_id = 1, pm_user_id = 4, pm_role = ''member'',
       pm_current_stage = None, pm_progress_status = None\<rparr>] \<and>
   checkMemberQuery 1 4 (tables accepted_twice) =
     [\<lparr>pm_project_id = 1, pm_user_id = 4, pm_role = ''member'',
       pm_current_stage = None, pm_progress_status = None\<rparr>,
      \<lparr>pm_project_id = 1, pm_user_id = 4, pm_role = ''member'',
       pm_current_stage = None, pm_progress_status = None\<rparr>] \<and>
   fst (add_project_member 1 4 ''member'' [] accepted_once) =
     Err 400 ''User is already a member of this project''"
  unfolding accepted_twice_def accepted_once_eq
  by (simp add: respond_defs add_project_member_def checkMemberQuery_def select_def execute_def
      example_defs)

section \<open>Completing a stage\<close>

lemma answers_tl_simp [simp]: "answers os \<Longrightarrow> answers (tl os)"
  by (rule answers_tl)

lemma conn_literal [simp]:
  "c\<lparr>snapshot := b, tables := a\<rparr> = \<lparr>tables = a, snapshot = b\<rparr>"
  "c\<lparr>tables := a, snapshot := b\<rparr> = \<lparr>tables = a, snapshot = b\<rparr>"
  by (cases c, simp)+

lemma commit_and_reply_answers:
  "answers os \<Longrightarrow> commit_and_reply r os c = (Ok r, tl os, c\<lparr>snapshot := None\<rparr>)"
  by (simp add: commit_and_reply_def commit_answers)

lemma checkExisting_frame:
  assumes "t_user_history d' = map f (t_user_history d)"
    and "\<And>h. uh_project_name (f h) = uh_project_name h"
    and "\<And>h. uh_project_description (f h) = uh_project_description h"
    and "\<And>h. uh_stage (f h) = uh_stage h"
    and "\<And>h. uh_project_id (f h) = uh_project_id h"
  shows "checkExistingQuery name description stage gid d' =
         map f (checkExistingQuery name description stage gid d)"
  unfolding checkExistingQuery_def assms(1)
  by (subst filter_map_same) (simp_all add: assms(2-5) take_map)

lemma history_after_evaluation:
  "t_user_history (snd (after_evaluation projectId userId stage now d)) =
     map (\<lambda>h. if uh_id h = projectId \<and> fst (after_evaluation projectId userId stage now d)
              then h\<lparr>uh_status := ''Complete''\<rparr> else h) (t_user_history d)"
  by (simp add: after_evaluation_def after_progress_def Let_def updateProjectQuery_def
      updateUserProgressQuery_def completeCurrentStageQuery_def)

lemma complete_project_prefix:
  assumes a: "answers os"
    and cur: "getCurrentProjectQuery projectId (tables c) = [currentProject]"
  shows "complete_project projectId userId nextStage currentStage now os c =
     (let stage = js_or_str currentStage (uh_stage currentProject);
          e = after_evaluation projectId userId stage now (tables c);
          os4 = (if getMembersQuery projectId (after_progress projectId userId stage now (tables c)) \<noteq> [] \<and> fst e
                 then tl (tl (tl (tl (tl (tl os))))) else tl (tl (tl (tl (tl os)))));
          c4 = \<lparr>tables = snd e, snapshot = Some (tables c)\<rparr>
      in case js_or_null nextStage of
           None \<Rightarrow>
             commit_and_reply
               \<lparr>cr_status = (if fst e then ''Project-Completed'' else ''User-Stage-Completed''),
                cr_newStageId = None, cr_stage = uh_stage currentProject,
                cr_completedMembers = None, cr_totalMembers = None\<rparr> os4 c4
         | Some nextProjectStage \<Rightarrow>
             (case checkExistingQuery (uh_project_name currentProject)
                     (uh_project_description currentProject) nextProjectStage
                     (js_or_nat (uh_project_id currentProject) projectId) (snd e) of
                existing # _ \<Rightarrow>
                  moveToExistingStage projectId userId nextProjectStage (fst e)
                    (uh_id existing) (tl os4) c4
              | [] \<Rightarrow>
                  createNextStage currentProject projectId userId nextProjectStage (fst e)
                    now (tl os4) c4))"
  using a cur
  by (simp add: complete_project_def queryDatabase_answers beginTransaction_answers
      check_answers contributors_def execute_def after_evaluation_def after_progress_def
      Let_def split: option.splits list.splits)

lemma createNextStage_answers:
  assumes a: "answers os"
  shows "createNextStage currentProject projectId userId nextProjectStage allCompleted now os
           \<lparr>tables = d, snapshot = s\<rparr> =
     (let newProjectId = next_history_id d;
          d4 = snd (createNextStageQuery currentProject nextProjectStage projectId now
                      (now + js_or_int (uh_stage_duration currentProject) 14) d);
          values = memberValues newProjectId nextProjectStage userId (transferMembersQuery projectId d)
      in if values = []
         then (Ok \<lparr>cr_status = ''Stage completed successfully'',
                   cr_newStageId = Some newProjectId, cr_stage = nextProjectStage,
                   cr_completedMembers = None, cr_totalMembers = None\<rparr>,
               tl (tl (tl os)), \<lparr>tables = d4, snapshot = None\<rparr>)
         else (Ok (if allCompleted then stage_reply True newProjectId nextProjectStage
                   else (stage_reply False newProjectId nextProjectStage)
                          \<lparr>cr_completedMembers :=
                             Some (getCompletedUsersQuery projectId (addMembersQuery values d4)),
                           cr_totalMembers :=
                             Some (totalMembersQuery projectId (addMembersQuery values d4))\<rparr>),
               tl (tl (tl (tl (tl (tl os))))),
               \<lparr>tables = addMembersQuery values d4, snapshot = None\<rparr>))"
  using a
  by (simp add: createNextStage_def queryDatabase_answers commit_and_reply_answers execute_def
      Let_def)
     (simp add: createNextStageQuery_def transferMembersQuery_def)

lemma js_or_null_Some: "x \<noteq> [] \<Longrightarrow> js_or_null (Some x) = Some x"
  by (simp add: js_or_null_def)

lemma members_after_evaluation:
  "t_project_members (snd (after_evaluation projectId userId stage now d)) =
     map (\<lambda>m. if pm_project_id m = projectId \<and> pm_user_id m = userId \<and>
                 pm_role m \<noteq> ''project_owner''
              then m\<lparr>pm_progress_status := Some ''Stage Complete''\<rparr> else m)
       (t_project_members d)"
  by (simp add: after_evaluation_def after_progress_def Let_def updateProjectQuery_def
      updateUserProgressQuery_def completeCurrentStageQuery_def)

lemma next_id_after_evaluation:
  "next_history_id (snd (after_evaluation projectId userId stage now d)) = next_history_id d"
  by (simp add: after_evaluation_def after_progress_def Let_def updateProjectQuery_def
      updateUserProgressQuery_def completeCurrentStageQuery_def)

lemma all_completed_has_member:
  "fst (after_evaluation projectId userId stage now d) \<Longrightarrow>
   filter (\<lambda>m. pm_project_id m = projectId) (t_project_members d) \<noteq> []"
  by (auto simp: after_evaluation_def after_progress_def Let_def getMembersQuery_def
      updateUserProgressQuery_def completeCurrentStageQuery_def filter_empty_conv
      split: if_splits)

lemma checkExisting_none:
  assumes "\<forall>h \<in> set (t_user_history d). uh_stage h = stage \<longrightarrow>
             uh_project_id h \<noteq> Some gid \<and>
             (uh_project_id h = None \<longrightarrow>
                uh_project_name h \<noteq> name \<or> uh_project_description h \<noteq> description)"
  shows "checkExistingQuery name description stage gid d = []"
  using assms by (auto simp: checkExistingQuery_def filter_empty_conv)

text \<open>
  C4 fails in four ways. (1) The search for the next stage's row does not look at the
  status: with an archived Development row and no other, no row is created and the
  archived row 2 is the answer. (2) The search also takes a row without a project_id that
  has the name, the description and the stage: with such a row of user 9 and no
  Development row in the group, no row is created and member 2 is made a member of user
  9's row. (3) A stage_duration of 0 counts as 14 days: the row created on day 200 is
  due on day 214. (4) The claim gives 'In Progress' to the completing user and null to
  owners: when the owner is the completing user, the owner's row of the new instance has
  null.
\<close>

theorem next_stage_counterexample:
  "filter (\<lambda>h. uh_project_id h = Some 1 \<and> uh_stage h = ''Development'' \<and>
               uh_status h \<noteq> ''Archived'') (t_user_history archived_db) = [] \<and>
   fst (complete_project 1 2 (Some ''Development'') None 200 [] (autocommit archived_db)) =
     Ok \<lparr>cr_status = ''Stage-User-Completed'', cr_newStageId = Some 2,
         cr_stage = ''Development'', cr_completedMembers = None, cr_totalMembers = None\<rparr> \<and>
   map (\<lambda>h. (uh_id h, uh_status h))
     (t_user_history (tables (snd (snd
        (complete_project 1 2 (Some ''Development'') None 200 [] (autocommit archived_db)))))) =
     [(1, ''In Progress''), (2, ''Archived'')] \<and>
   filter (\<lambda>h. uh_project_id h = Some 1 \<and> uh_stage h = ''Development'')
     (t_user_history stranger_db) = [] \<and>
   fst (complete_project 1 2 (Some ''Development'') None 200 [] (autocommit stranger_db)) =
     Ok \<lparr>cr_status = ''Stage-User-Completed'', cr_newStageId = Some 2,
         cr_stage = ''Development'', cr_completedMembers = None, cr_totalMembers = None\<rparr> \<and>
   map (\<lambda>h. (uh_id h, uh_user_id h, uh_project_id h))
     (t_user_history (tables (snd (snd
        (complete_project 1 2 (Some ''Development'') None 200 [] (autocommit stranger_db)))))) =
     [(1, 1, Some 1), (2, 9, None)] \<and>
   map (\<lambda>m. (pm_user_id m, pm_role m, pm_progress_status m))
     (filter (\<lambda>m. pm_project_id m = 2)
        (t_project_members (tables (snd (snd
           (complete_project 1 2 (Some ''Development'') None 200 []
              (autocommit stranger_db))))))) =
     [(2, ''member'', Some ''In Progress'')] \<and>
   map uh_stage_duration (t_user_history zero_duration_db) = [Some 0] \<and>
   map (\<lambda>h. (uh_id h, uh_stage_start_date h, uh_stage_due_date h))
     (t_user_history (tables (snd (snd
        (complete_project 1 2 (Some ''Development'') None 200 [] (autocommit zero_duration_db)))))) =
     [(1, Some 100, Some 107), (2, Some 200, Some 214)] \<and>
   map (\<lambda>m. (pm_user_id m, pm_role m, pm_progress_status m))
     (filter (\<lambda>m. pm_project_id m = 2)
        (t_project_members (tables (snd (snd
           (complete_project 1 1 (Some ''Development'') None 200 []
              (autocommit emission_db))))))) =
     [(1, ''project_owner'', None), (2, ''member'', Some ''Not Started''),
      (3, ''member'', Some ''Not Started'')]"
  by (simp add: handler_defs query_defs archived_db_def zero_duration_db_def stranger_db_def
      stranger_row_def example_defs Let_def)

text \<open>
  C4, amended. When the store answers, the instance exists, a next stage is named, no
  user_history row of the project group, of whatever status, has that stage, and no row
  without a project_id has that stage together with the instance's name and description,
  the call answers 200 with the id of a new row: a copy of the instance's owner,
  organization, name, description, stage_duration and project dates, with the new stage,
  the group's id, status 'In Progress', no emissions, stage_start_date today and
  stage_due_date stage_duration days later, 14 where stage_duration is null or 0. Every
  membership of the instance is copied to the new row's id with its role and the new
  stage: progress_status null for project_owner rows, also the caller's; 'In Progress'
  for the caller's other rows; 'Not Started' for the rest. The memberships of the
  instance itself change only in the caller's rows, now 'Stage Complete' unless
  project_owner; the transaction is committed.
\<close>

theorem completeStage_creates_next_stage:
  assumes "answers os"
    and "getCurrentProjectQuery projectId (tables c) = [currentProject]"
    and "nextStage = Some nextProjectStage" and "nextProjectStage \<noteq> []"
    and "\<forall>h \<in> set (t_user_history (tables c)). uh_stage h = nextProjectStage \<longrightarrow>
           uh_project_id h \<noteq>
             Some (case uh_project_id currentProject of
                     None \<Rightarrow> projectId | Some g \<Rightarrow> if g = 0 then projectId else g) \<and>
           (uh_project_id h = None \<longrightarrow>
              uh_project_name h \<noteq> uh_project_name currentProject \<or>
              uh_project_description h \<noteq> uh_project_description currentProject)"
  shows "\<exists>r c'. complete_project projectId userId nextStage currentStage now os c = (Ok r, c') \<and>
     cr_newStageId r = Some (next_history_id (tables c)) \<and>
     cr_stage r = nextProjectStage \<and>
     snapshot (snd c') = None \<and>
     t_user_history (tables (snd c')) =
       map (\<lambda>h. if uh_id h = projectId \<and> cr_status r = ''Stage-Completed''
                then h\<lparr>uh_status := ''Complete''\<rparr> else h) (t_user_history (tables c)) @
       [\<lparr>uh_id = next_history_id (tables c),
         uh_user_id = uh_user_id currentProject,
         uh_organization = uh_organization currentProject,
         uh_project_name = uh_project_name currentProject,
         uh_project_description = uh_project_description currentProject,
         uh_stage = nextProjectStage,
         uh_project_id =
           Some (case uh_project_id currentProject of
                   None \<Rightarrow> projectId | Some g \<Rightarrow> if g = 0 then projectId else g),
         uh_status = ''In Progress'',
         uh_carbon_emit = 0,
         uh_session_duration = 0,
         uh_stage_duration = uh_stage_duration currentProject,
         uh_stage_start_date = Some now,
         uh_stage_due_date =
           Some (now + (case uh_stage_duration currentProject of
                          None \<Rightarrow> 14 | Some n \<Rightarrow> if n = 0 then 14 else n)),
         uh_project_start_date = uh_project_start_date currentProject,
         uh_project_due_date = uh_project_due_date currentProject\<rparr>] \<and>
     t_project_members (tables (snd c')) =
       map (\<lambda>m. if pm_project_id m = projectId \<and> pm_user_id m = userId \<and>
                   pm_role m \<noteq> ''project_owner''
                then m\<lparr>pm_progress_status := Some ''Stage Complete''\<rparr> else m)
         (t_project_members (tables c)) @
       map (\<lambda>m. \<lparr>pm_project_id = next_history_id (tables c), pm_user_id = pm_user_id m,
                  pm_role = pm_role m, pm_current_stage = Some nextProjectStage,
                  pm_progress_status =
                    (if pm_role m = ''project_owner'' then None
                     else if pm_user_id m = userId then Some ''In Progress''
                     else Some ''Not Started'')\<rparr>)
         (filter (\<lambda>m. pm_project_id m = projectId) (t_project_members (tables c)))"
proof -
  let ?stage = "js_or_str currentStage (uh_stage currentProject)"
  let ?e = "after_evaluation projectId userId ?stage now (tables c)"
  have ex0: "checkExistingQuery (uh_project_name currentProject)
           (uh_project_description currentProject) nextProjectStage
           (js_or_nat (uh_project_id currentProject) projectId) (tables c) = []"
    unfolding js_or_nat_def by (rule checkExisting_none) (rule assms(5))
  have ex: "checkExistingQuery (uh_project_name currentProject)
           (uh_project_description currentProject) nextProjectStage
           (js_or_nat (uh_project_id currentProject) projectId) (snd ?e) = []"
    by (subst checkExisting_frame [OF history_after_evaluation]) (simp_all add: ex0)
  have tm: "memberValues i nextProjectStage userId (transferMembersQuery projectId (snd ?e)) =
      map (\<lambda>m. \<lparr>pm_project_id = i, pm_user_id = pm_user_id m,
                  pm_role = pm_role m, pm_current_stage = Some nextProjectStage,
                  pm_progress_status =
                    (if pm_role m = ''project_owner'' then None
                     else if pm_user_id m = userId then Some ''In Progress''
                     else Some ''Not Started'')\<rparr>)
         (filter (\<lambda>m. pm_project_id m = projectId) (t_project_members (tables c)))" for i
    unfolding transferMembersQuery_def members_after_evaluation memberValues_def
    by (subst filter_map_same) (simp_all add: o_def)
  let ?os4 = "if getMembersQuery projectId
                    (after_progress projectId userId ?stage now (tables c)) \<noteq> [] \<and> fst ?e
               then tl (tl (tl (tl (tl (tl (tl os)))))) else tl (tl (tl (tl (tl (tl os)))))"
  have a4: "answers ?os4"
    using assms(1) by simp
  have cp: "complete_project projectId userId nextStage currentStage now os c =
      createNextStage currentProject projectId userId nextProjectStage (fst ?e) now ?os4
        \<lparr>tables = snd ?e, snapshot = Some (tables c)\<rparr>"
    unfolding complete_project_prefix [OF assms(1,2)] assms(3) js_or_null_Some [OF assms(4)]
    by (simp add: Let_def ex)
  show ?thesis
    unfolding cp createNextStage_answers [OF a4] Let_def tm
    using all_completed_has_member [of projectId userId ?stage now "tables c"]
    by (simp add: next_id_after_evaluation stage_reply_def createNextStageQuery_def
        addMembersQuery_def history_after_evaluation members_after_evaluation js_or_nat_def
        js_or_int_def)
qed

text \<open>
  Member 2 of project 1 completes Design on day 200 and names Development; the Design
  row is the only row of the table.
\<close>

theorem completeStage_creates_next_stage_witness:
  "answers [] \<and>
   getCurrentProjectQuery 1 (tables (autocommit emission_db)) = [design_row] \<and>
   t_user_history (tables (autocommit emission_db)) = [design_row] \<and>
   uh_stage design_row = ''Design'' \<and>
   map (\<lambda>h. (uh_id h, uh_stage h, uh_stage_start_date h, uh_stage_due_date h))
     (t_user_history (tables (snd (snd
        (complete_project 1 2 (Some ''Development'') None 200 [] (autocommit emission_db)))))) =
     [(1, ''Design'', Some 100, Some 107), (2, ''Development'', Some 200, Some 207)] \<and>
   map (\<lambda>m. (pm_user_id m, pm_role m, pm_progress_status m))
     (filter (\<lambda>m. pm_project_id m = 2)
        (t_project_members (tables (snd (snd
           (complete_project 1 2 (Some ''Development'') None 200 [] (autocommit emission_db))))))) =
     [(1, ''project_owner'', None), (2, ''member'', Some ''In Progress''),
      (3, ''member'', Some ''Not Started'')]"
proof -
  have h: "answers []"
    "getCurrentProjectQuery 1 (tables (autocommit emission_db)) = [design_row]"
    "t_user_history (tables (autocommit emission_db)) = [design_row]"
    "uh_stage design_row = ''Design''"
    by (simp_all add: answers_def getCurrentProjectQuery_def example_defs)
  have n: "\<forall>h \<in> set (t_user_history (tables (autocommit emission_db))).
      uh_stage h = ''Development'' \<longrightarrow>
        uh_project_id h \<noteq>
          Some (case uh_project_id design_row of
                  None \<Rightarrow> 1 | Some g \<Rightarrow> if g = 0 then 1 else g) \<and>
        (uh_project_id h = None \<longrightarrow>
           uh_project_name h \<noteq> uh_project_name design_row \<or>
           uh_project_description h \<noteq> uh_project_description design_row)"
    unfolding h(3) by (simp add: h(4))
  from completeStage_creates_next_stage [OF h(1,2) refl _ n, of 2 None 200]
  obtain r c' where
    "complete_project 1 2 (Some ''Development'') None 200 [] (autocommit emission_db) = (Ok r, c')"
    and "t_user_history (tables (snd c')) =
       map (\<lambda>h. if uh_id h = 1 \<and> cr_status r = ''Stage-Completed''
                then h\<lparr>uh_status := ''Complete''\<rparr> else h)
         (t_user_history (tables (autocommit emission_db))) @
       [\<lparr>uh_id = next_history_id (tables (autocommit emission_db)),
         uh_user_id = uh_user_id design_row,
         uh_organization = uh_organization design_row,
         uh_project_name = uh_project_name design_row,
         uh_project_description = uh_project_description design_row,
         uh_stage = ''Development'',
         uh_project_id =
           Some (case uh_project_id design_row of
                   None \<Rightarrow> 1 | Some g \<Rightarrow> if g = 0 then 1 else g),
         uh_status = ''In Progress'',
         uh_carbon_emit = 0,
         uh_session_duration = 0,
         uh_stage_duration = uh_stage_duration design_row,
         uh_stage_start_date = Some 200,
         uh_stage_due_date =
           Some (200 + (case uh_stage_duration design_row of
                          None \<Rightarrow> 14 | Some n \<Rightarrow> if n = 0 then 14 else n)),
         uh_project_start_date = uh_project_start_date design_row,
         uh_project_due_date = uh_project_due_date design_row\<rparr>]"
    and "t_project_members (tables (snd c')) =
       map (\<lambda>m. if pm_project_id m = 1 \<and> pm_user_id m = 2 \<and>
                   pm_role m \<noteq> ''project_owner''
                then m\<lparr>pm_progress_status := Some ''Stage Complete''\<rparr> else m)
         (t_project_members (tables (autocommit emission_db))) @
       map (\<lambda>m. \<lparr>pm_project_id = next_history_id (tables (autocommit emission_db)),
                  pm_user_id = pm_user_id m,
                  pm_role = pm_role m, pm_current_stage = Some ''Development'',
                  pm_progress_status =
                    (if pm_role m = ''project_owner'' then None
                     else if pm_user_id m = 2 then Some ''In Progress''
                     else Some ''Not Started'')\<rparr>)
         (filter (\<lambda>m. pm_project_id m = 1) (t_project_members (tables (autocommit emission_db))))"
    by auto
  then show ?thesis
    using h by (simp add: example_defs)
qed

text \<open>
  The owner's row also gets 'In Progress' when the owner completes a stage whose
  next-stage row already exists (lines 1619-1624 and 1661-1665).
\<close>

lemma moved_owner_has_progress_status:
  "map (\<lambda>m. (pm_project_id m, pm_user_id m, pm_role m, pm_progress_status m))
     (filter (\<lambda>m. pm_role m = ''project_owner'')
        (t_project_members (tables (snd (snd
           (complete_project 1 1 (Some ''Development'') None 200 [] (autocommit archived_db))))))) =
     [(1, 1, ''project_owner'', None), (2, 1, ''project_owner'', Some ''In Progress'')]"
  by (simp add: handler_defs query_defs archived_db_def example_defs Let_def)

lemma no_conn_loss_tl_simp [simp]: "no_conn_loss os \<Longrightarrow> no_conn_loss (tl os)"
  by (rule no_conn_loss_tl)

lemma commit_and_reply_rollback:
  assumes "no_conn_loss os" and "snapshot c = Some s"
    and "commit_and_reply r os c = (Err n msg, os', c')"
  shows "tables c' = s \<and> snapshot c' = None"
  using assms
  by (auto simp: commit_and_reply_def commit_eq rollback_def split: if_splits)

lemma moveToExistingStage_rollback:
  assumes "no_conn_loss os" and "snapshot c = Some s"
    and "moveToExistingStage projectId userId nextProjectStage allCompleted existing os c =
           (Err n msg, os', c')"
  shows "tables c' = s \<and> snapshot c' = None"
  using assms
  by (auto simp: moveToExistingStage_def queryDatabase_eq commit_and_reply_def commit_eq
      rollback_def execute_def split: if_splits)

lemma createNextStage_rollback:
  assumes "no_conn_loss os" and "snapshot c = Some s"
    and "createNextStage currentProject projectId userId nextProjectStage allCompleted now os c =
           (Err n msg, os', c')"
  shows "tables c' = s \<and> snapshot c' = None"
  using assms
  by (auto simp: createNextStage_def queryDatabase_eq commit_and_reply_def commit_eq
      rollback_def execute_def Let_def split: if_splits)

lemma checkAndUpdateProjectCompletion_txn:
  assumes "no_conn_loss os"
    and "checkAndUpdateProjectCompletion projectId os c = (r, os1, c1)"
  shows "snapshot c1 = snapshot c \<and> no_conn_loss os1"
  using assms
  by (auto simp: checkAndUpdateProjectCompletion_def queryDatabase_eq execute_def Let_def
      split: if_splits)

text \<open>
  While the connection holds, a call of POST /complete_project/:id that answers with an
  error leaves the tables as they were.
\<close>

lemma complete_project_rollback:
  assumes os: "no_conn_loss os"
    and r: "complete_project projectId userId nextStage currentStage now os c =
              (Err n msg, os', c')"
  shows "tables c' = tables c"
proof (cases "getCurrentProjectQuery projectId (tables c)")
  case Nil
  with os r show ?thesis
    by (auto simp: complete_project_def queryDatabase_eq split: if_splits)
next
  case (Cons currentProject rest)
  show ?thesis
  proof (cases "fails os \<or> fails (tl os) \<or> fails (tl (tl os)) \<or> fails (tl (tl (tl os)))")
    case True
    with os r Cons show ?thesis
      by (auto simp: complete_project_def queryDatabase_eq beginTransaction_eq rollback_def
          execute_def split: if_splits)
  next
    case False
    let ?c3 = "\<lparr>tables = updateUserProgressQuery projectId userId
        (completeCurrentStageQuery projectId userId
           (js_or_str currentStage (uh_stage currentProject)) now (tables c)),
        snapshot = Some (tables c)\<rparr>"
    obtain e os4 c4 where e: "checkAndUpdateProjectCompletion projectId
        (tl (tl (tl (tl os)))) ?c3 = (e, os4, c4)"
      by (cases "checkAndUpdateProjectCompletion projectId (tl (tl (tl (tl os)))) ?c3") auto
    from checkAndUpdateProjectCompletion_txn [OF _ e] os
    have c4: "snapshot c4 = Some (tables c)" and os4: "no_conn_loss os4"
      by simp_all
    from os os4 r Cons False e consider
        (check) "fst e \<noteq> None" "c' = rollback c4"
      | (last) reply where "commit_and_reply reply os4 c4 = (Err n msg, os', c')"
      | (existing) "fails os4" "c' = rollback c4"
      | (move) nextProjectStage allCompleted existing where
          "moveToExistingStage projectId userId nextProjectStage allCompleted existing
            (tl os4) c4 = (Err n msg, os', c')"
      | (create) nextProjectStage allCompleted where
          "createNextStage currentProject projectId userId nextProjectStage allCompleted now
            (tl os4) c4 = (Err n msg, os', c')"
      by (auto simp: complete_project_def queryDatabase_eq beginTransaction_eq execute_def
          split: if_splits option.splits list.splits prod.splits)
    then show ?thesis
    proof cases
      case check
      with c4 show ?thesis by (simp add: rollback_def)
    next
      case last
      from commit_and_reply_rollback [OF os4 c4 this] show ?thesis by simp
    next
      case existing
      with c4 show ?thesis by (simp add: rollback_def)
    next
      case move
      from moveToExistingStage_rollback [OF no_conn_loss_tl [OF os4] c4 this]
      show ?thesis by simp
    next
      case create
      from createNextStage_rollback [OF no_conn_loss_tl [OF os4] c4 this]
      show ?thesis by simp
    qed
  qed
qed

text \<open>
  C5 fails on the code when the connection is lost inside the unit of work:
  \<open>queryDatabase\<close> reconnects and runs the statement again on a connection that has no
  transaction. Member 3 completes the last stage; the progress record is written, the
  connection drops under the membership update, which then runs on the new connection,
  and the evaluator's query fails. The call answers 500 and rolls back, the progress
  record is gone, and the membership stays at 'Stage Complete'.
\<close>

theorem lost_connection_breaks_atomicity:
  "complete_project 1 3 None None 200 [Succeeds, Succeeds, Succeeds, ConnLost, Succeeds, Fails]
     (autocommit emission_db) =
     (Err 500 ''Failed to check project completion'', [],
      autocommit (emission_db\<lparr>t_project_members :=
        [member_row 1 1 ''project_owner'' None,
         member_row 1 2 ''member'' (Some ''Stage Complete''),
         member_row 1 3 ''member'' (Some ''Stage Complete'')]\<rparr>)) \<and>
   t_project_members emission_db =
     [member_row 1 1 ''project_owner'' None,
      member_row 1 2 ''member'' (Some ''Stage Complete''),
      member_row 1 3 ''member'' (Some ''In Progress'')]"
  by (simp add: handler_defs query_defs example_defs Let_def)

end
